theory Spec2Isabelle
  imports Main "HOL-Library.Char_ord" "HOL-Library.List_Lexorder" "HOL-Library.Product_Lexorder"
    "HOL-Library.Multiset"
begin

section \<open>Data model\<close>

text \<open>
  Hooks are reached through pointers (\<^verbatim>\<open>*release.Hook\<close>), and the accessors of
  \<^verbatim>\<open>pkg/release\<close> wrap such a pointer. A pointer is an address, the hooks live in a
  heap, and every mutation of a hook is an update of the heap at its address. Go strings are
  byte strings, compared bytewise and lexicographically by \<^verbatim>\<open><\<close>; that is the order of
  \<^typ>\<open>string\<close> under the lexicographic list order. Go's \<^verbatim>\<open>int\<close> is only
  compared here, never added, so it is an \<^typ>\<open>int\<close>.
\<close>

type_synonym addr = nat

text \<open>\<^verbatim>\<open>time.Time\<close>: a reading of the clock; \<open>0\<close> is the zero value.\<close>

type_synonym time = nat

text \<open>
  The struct \<^verbatim>\<open>HookExecution\<close> and the struct \<^verbatim>\<open>Hook\<close> of the packages
  \<^verbatim>\<open>release/v1\<close> and \<^verbatim>\<open>release/v2\<close>, with the fields the accessors read and write.
  Hook events, delete policies, output log policies and phases are string types.
\<close>

record hook_execution =
  StartedAt :: time
  CompletedAt :: time
  Phase :: string

record hook =
  Name :: string
  Kind :: string
  Path :: string
  Manifest :: string
  Weight :: int
  Events :: "string list"
  DeletePolicies :: "string list"
  OutputLogPolicies :: "string list"
  LastRun :: hook_execution

text \<open>The release, as far as hook execution reads it: the hook pointers and the namespace.\<close>

record release =
  Hooks :: "addr list"
  Namespace :: string

text \<open>
  Go \<^verbatim>\<open>error\<close> values. An error produced by a collaborator is opaque; \<^verbatim>\<open>fmt.Errorf\<close>
  with a \<^verbatim>\<open>%w\<close> verb keeps its format string, the string arguments and the wrapped error;
  \<^verbatim>\<open>joinErrors(errs, sep)\<close> keeps the errors and the separator.
\<close>

datatype err =
  ExternalError string
| Errorf string "string list" err
| JoinErrors "err list" string

text \<open>\<^verbatim>\<open>kube.ResourceList\<close>, the pod list and \<^verbatim>\<open>metav1.ListOptions\<close>.\<close>

type_synonym resource_list = "string list"

type_synonym pod_list = "string list"

record list_options =
  LabelSelector :: string
  FieldSelector :: string

text \<open>
  Every call that leaves the engine (cluster client, waiter, release storage, clock, logger)
  is recorded, in the order in which it is issued.
\<close>

datatype call =
  Build string bool
| Create resource_list bool
| Delete resource_list
| GetWaiter string
| WatchUntilReady resource_list int
| WaitForDelete resource_list int
| GetPodList string list_options
| OutputContainerLogsForPodList pod_list string
| RecordRelease "hook list"
| ReleasesUpdate "hook list"
| TimeNow
| LogPrintf string err

record world =
  heap :: "addr \<Rightarrow> hook"
  trace :: "call list"

text \<open>
  The collaborators of \<^verbatim>\<open>Configuration\<close>. The engine is sequential, so the answer of a
  collaborator to a call is a function of the calls issued before it and of the arguments of
  the call. \<open>YamlUnmarshal\<close> is \<^verbatim>\<open>yaml.Unmarshal\<close> into the struct
  \<^verbatim>\<open>{Metadata {Namespace string}}\<close>: a decoding error, or the value of the field
  \<^verbatim>\<open>Metadata.Namespace\<close> (the empty string when the document does not set it).
\<close>

record configuration =
  KubeClient_Build :: "call list \<Rightarrow> string \<Rightarrow> bool \<Rightarrow> err + resource_list"
  KubeClient_Create :: "call list \<Rightarrow> resource_list \<Rightarrow> bool \<Rightarrow> err option"
  KubeClient_Delete :: "call list \<Rightarrow> resource_list \<Rightarrow> err list"
  KubeClient_GetWaiter :: "call list \<Rightarrow> string \<Rightarrow> err option"
  Waiter_WatchUntilReady :: "call list \<Rightarrow> resource_list \<Rightarrow> int \<Rightarrow> err option"
  Waiter_WaitForDelete :: "call list \<Rightarrow> resource_list \<Rightarrow> int \<Rightarrow> err option"
  KubeClient_GetPodList :: "call list \<Rightarrow> string \<Rightarrow> list_options \<Rightarrow> err + pod_list"
  KubeClient_OutputContainerLogsForPodList :: "call list \<Rightarrow> pod_list \<Rightarrow> string \<Rightarrow> err option"
  Time_Now :: "call list \<Rightarrow> time"
  YamlUnmarshal :: "string \<Rightarrow> err + string"

definition emit :: "call \<Rightarrow> world \<Rightarrow> world" where
  "emit c w = w\<lparr>trace := trace w @ [c]\<rparr>"

definition time_Now :: "configuration \<Rightarrow> world \<Rightarrow> time \<times> world" where
  "time_Now cfg w = (Time_Now cfg (trace w), emit TimeNow w)"

definition log_Printf :: "string \<Rightarrow> err \<Rightarrow> world \<Rightarrow> world" where
  "log_Printf fmt e w = emit (LogPrintf fmt e) w"

section \<open>Constants of \<^verbatim>\<open>pkg/release/interfaces.go\<close>\<close>

definition HookDeletePolicyBeforeCreation :: string where
  "HookDeletePolicyBeforeCreation = ''before-hook-creation''"

definition HookDeletePolicySucceeded :: string where
  "HookDeletePolicySucceeded = ''hook-succeeded''"

definition HookDeletePolicyFailed :: string where
  "HookDeletePolicyFailed = ''hook-failed''"

definition HookOutputPolicySucceeded :: string where
  "HookOutputPolicySucceeded = ''hook-succeeded''"

definition HookOutputPolicyFailed :: string where
  "HookOutputPolicyFailed = ''hook-failed''"

definition HookPhaseUnknown :: string where
  "HookPhaseUnknown = ''Unknown''"

definition HookPhaseRunning :: string where
  "HookPhaseRunning = ''Running''"

definition HookPhaseSucceeded :: string where
  "HookPhaseSucceeded = ''Succeeded''"

definition HookPhaseFailed :: string where
  "HookPhaseFailed = ''Failed''"

text \<open>
  Modelled from the spec: the constant \<^verbatim>\<open>HookBeforeHookCreation\<close> of the packages
  \<^verbatim>\<open>release/v1\<close> and \<^verbatim>\<open>release/v2\<close>, whose declaration is not among the sources; the
  spec names the default policy "before-hook-creation".
\<close>

definition HookBeforeHookCreation :: string where
  "HookBeforeHookCreation = ''before-hook-creation''"

section \<open>The hook accessors\<close>

text \<open>
  \<^verbatim>\<open>HookAccessor\<close> has two implementations, \<^verbatim>\<open>v1HookAccessor\<close> and
  \<^verbatim>\<open>v2HookAccessor\<close>, each holding the pointer to its hook. A method of the interface is
  a function with one equation for each implementation.
\<close>

datatype hook_accessor = V1HookAccessor addr | V2HookAccessor addr

fun hook_ptr :: "hook_accessor \<Rightarrow> addr" where
  "hook_ptr (V1HookAccessor p) = p"
| "hook_ptr (V2HookAccessor p) = p"

fun HookAccessor_Path :: "hook_accessor \<Rightarrow> world \<Rightarrow> string" where
  "HookAccessor_Path (V1HookAccessor p) w = Path (heap w p)"
| "HookAccessor_Path (V2HookAccessor p) w = Path (heap w p)"

fun HookAccessor_Manifest :: "hook_accessor \<Rightarrow> world \<Rightarrow> string" where
  "HookAccessor_Manifest (V1HookAccessor p) w = Manifest (heap w p)"
| "HookAccessor_Manifest (V2HookAccessor p) w = Manifest (heap w p)"

fun HookAccessor_Name :: "hook_accessor \<Rightarrow> world \<Rightarrow> string" where
  "HookAccessor_Name (V1HookAccessor p) w = Name (heap w p)"
| "HookAccessor_Name (V2HookAccessor p) w = Name (heap w p)"

fun HookAccessor_Kind :: "hook_accessor \<Rightarrow> world \<Rightarrow> string" where
  "HookAccessor_Kind (V1HookAccessor p) w = Kind (heap w p)"
| "HookAccessor_Kind (V2HookAccessor p) w = Kind (heap w p)"

fun HookAccessor_Weight :: "hook_accessor \<Rightarrow> world \<Rightarrow> int" where
  "HookAccessor_Weight (V1HookAccessor p) w = Weight (heap w p)"
| "HookAccessor_Weight (V2HookAccessor p) w = Weight (heap w p)"

text \<open>The three membership tests are the same loop: return true at the first equal entry.\<close>

fun has_string :: "string list \<Rightarrow> string \<Rightarrow> bool" where
  "has_string [] s = False"
| "has_string (e # es) s = (if e = s then True else has_string es s)"

fun HookAccessor_HasEvent :: "hook_accessor \<Rightarrow> string \<Rightarrow> world \<Rightarrow> bool" where
  "HookAccessor_HasEvent (V1HookAccessor p) event w = has_string (Events (heap w p)) event"
| "HookAccessor_HasEvent (V2HookAccessor p) event w = has_string (Events (heap w p)) event"

fun HookAccessor_HasDeletePolicy :: "hook_accessor \<Rightarrow> string \<Rightarrow> world \<Rightarrow> bool" where
  "HookAccessor_HasDeletePolicy (V1HookAccessor p) policy w =
     has_string (DeletePolicies (heap w p)) policy"
| "HookAccessor_HasDeletePolicy (V2HookAccessor p) policy w =
     has_string (DeletePolicies (heap w p)) policy"

fun HookAccessor_HasOutputLogPolicy :: "hook_accessor \<Rightarrow> string \<Rightarrow> world \<Rightarrow> bool" where
  "HookAccessor_HasOutputLogPolicy (V1HookAccessor p) policy w =
     has_string (OutputLogPolicies (heap w p)) policy"
| "HookAccessor_HasOutputLogPolicy (V2HookAccessor p) policy w =
     has_string (OutputLogPolicies (heap w p)) policy"

text \<open>The body shared by the two \<^verbatim>\<open>SetDefaultDeletePolicy\<close> methods, on the hook itself.\<close>

definition set_default_delete_policy :: "hook \<Rightarrow> hook" where
  "set_default_delete_policy h =
     (if length (DeletePolicies h) = 0
      then h\<lparr>DeletePolicies := [HookBeforeHookCreation]\<rparr>
      else h)"

definition update_hook :: "addr \<Rightarrow> (hook \<Rightarrow> hook) \<Rightarrow> world \<Rightarrow> world" where
  "update_hook p f w = w\<lparr>heap := (heap w)(p := f (heap w p))\<rparr>"

fun HookAccessor_SetDefaultDeletePolicy :: "hook_accessor \<Rightarrow> world \<Rightarrow> world" where
  "HookAccessor_SetDefaultDeletePolicy (V1HookAccessor p) w =
     update_hook p set_default_delete_policy w"
| "HookAccessor_SetDefaultDeletePolicy (V2HookAccessor p) w =
     update_hook p set_default_delete_policy w"

fun HookAccessor_SetLastRunStarted ::
  "configuration \<Rightarrow> hook_accessor \<Rightarrow> world \<Rightarrow> world" where
  "HookAccessor_SetLastRunStarted cfg (V1HookAccessor p) w =
     (let (t, w1) = time_Now cfg w
      in update_hook p
           (\<lambda>h. h\<lparr>LastRun := \<lparr>StartedAt = t, CompletedAt = 0, Phase = HookPhaseRunning\<rparr>\<rparr>) w1)"
| "HookAccessor_SetLastRunStarted cfg (V2HookAccessor p) w =
     (let (t, w1) = time_Now cfg w
      in update_hook p
           (\<lambda>h. h\<lparr>LastRun := \<lparr>StartedAt = t, CompletedAt = 0, Phase = HookPhaseRunning\<rparr>\<rparr>) w1)"

fun HookAccessor_SetLastRunPhase :: "hook_accessor \<Rightarrow> string \<Rightarrow> world \<Rightarrow> world" where
  "HookAccessor_SetLastRunPhase (V1HookAccessor p) phase w =
     update_hook p (\<lambda>h. h\<lparr>LastRun := (LastRun h)\<lparr>Phase := phase\<rparr>\<rparr>) w"
| "HookAccessor_SetLastRunPhase (V2HookAccessor p) phase w =
     update_hook p (\<lambda>h. h\<lparr>LastRun := (LastRun h)\<lparr>Phase := phase\<rparr>\<rparr>) w"

fun HookAccessor_SetLastRunCompleted ::
  "configuration \<Rightarrow> hook_accessor \<Rightarrow> world \<Rightarrow> world" where
  "HookAccessor_SetLastRunCompleted cfg (V1HookAccessor p) w =
     (let (t, w1) = time_Now cfg w
      in update_hook p (\<lambda>h. h\<lparr>LastRun := (LastRun h)\<lparr>CompletedAt := t\<rparr>\<rparr>) w1)"
| "HookAccessor_SetLastRunCompleted cfg (V2HookAccessor p) w =
     (let (t, w1) = time_Now cfg w
      in update_hook p (\<lambda>h. h\<lparr>LastRun := (LastRun h)\<lparr>CompletedAt := t\<rparr>\<rparr>) w1)"

section \<open>The cluster client, seen from the engine\<close>

definition kube_Build ::
  "configuration \<Rightarrow> string \<Rightarrow> bool \<Rightarrow> world \<Rightarrow> (err + resource_list) \<times> world" where
  "kube_Build cfg manifest validate w =
     (KubeClient_Build cfg (trace w) manifest validate, emit (Build manifest validate) w)"

definition kube_Create ::
  "configuration \<Rightarrow> resource_list \<Rightarrow> bool \<Rightarrow> world \<Rightarrow> err option \<times> world" where
  "kube_Create cfg resources ssa w =
     (KubeClient_Create cfg (trace w) resources ssa, emit (Create resources ssa) w)"

definition kube_Delete ::
  "configuration \<Rightarrow> resource_list \<Rightarrow> world \<Rightarrow> err list \<times> world" where
  "kube_Delete cfg resources w =
     (KubeClient_Delete cfg (trace w) resources, emit (Delete resources) w)"

definition kube_GetWaiter ::
  "configuration \<Rightarrow> string \<Rightarrow> world \<Rightarrow> err option \<times> world" where
  "kube_GetWaiter cfg strategy w =
     (KubeClient_GetWaiter cfg (trace w) strategy, emit (GetWaiter strategy) w)"

definition waiter_WatchUntilReady ::
  "configuration \<Rightarrow> resource_list \<Rightarrow> int \<Rightarrow> world \<Rightarrow> err option \<times> world" where
  "waiter_WatchUntilReady cfg resources timeout w =
     (Waiter_WatchUntilReady cfg (trace w) resources timeout,
      emit (WatchUntilReady resources timeout) w)"

definition waiter_WaitForDelete ::
  "configuration \<Rightarrow> resource_list \<Rightarrow> int \<Rightarrow> world \<Rightarrow> err option \<times> world" where
  "waiter_WaitForDelete cfg resources timeout w =
     (Waiter_WaitForDelete cfg (trace w) resources timeout,
      emit (WaitForDelete resources timeout) w)"

definition kube_GetPodList ::
  "configuration \<Rightarrow> string \<Rightarrow> list_options \<Rightarrow> world \<Rightarrow> (err + pod_list) \<times> world" where
  "kube_GetPodList cfg namespace opts w =
     (KubeClient_GetPodList cfg (trace w) namespace opts, emit (GetPodList namespace opts) w)"

definition kube_OutputContainerLogsForPodList ::
  "configuration \<Rightarrow> pod_list \<Rightarrow> string \<Rightarrow> world \<Rightarrow> err option \<times> world" where
  "kube_OutputContainerLogsForPodList cfg pods namespace w =
     (KubeClient_OutputContainerLogsForPodList cfg (trace w) pods namespace,
      emit (OutputContainerLogsForPodList pods namespace) w)"

section \<open>Deleting a hook by policy\<close>

text \<open>\<^verbatim>\<open>deleteHookByPolicyGeneric\<close>; \<open>None\<close> is the nil error.\<close>

definition deleteHookByPolicyGeneric ::
  "configuration \<Rightarrow> hook_accessor \<Rightarrow> string \<Rightarrow> string \<Rightarrow> int \<Rightarrow> world
     \<Rightarrow> err option \<times> world" where
  "deleteHookByPolicyGeneric cfg h policy waitStrategy timeout w =
     (if HookAccessor_Kind h w = ''CustomResourceDefinition'' then (None, w)
      else if HookAccessor_HasDeletePolicy h policy w then
        (case kube_Build cfg (HookAccessor_Manifest h w) False w of
           (Inl e, w1) \<Rightarrow>
             (Some (Errorf ''unable to build kubernetes object for deleting hook %s: %w''
                      [HookAccessor_Path h w1] e), w1)
         | (Inr resources, w1) \<Rightarrow>
             (case kube_Delete cfg resources w1 of
                (errs, w2) \<Rightarrow>
                  if length errs > 0 then (Some (JoinErrors errs ''; ''), w2)
                  else
                    (case kube_GetWaiter cfg waitStrategy w2 of
                       (Some e, w3) \<Rightarrow> (Some e, w3)
                     | (None, w3) \<Rightarrow>
                         (case waiter_WaitForDelete cfg resources timeout w3 of
                            (Some e, w4) \<Rightarrow> (Some e, w4)
                          | (None, w4) \<Rightarrow> (None, w4)))))
      else (None, w))"

section \<open>Emitting the logs of a hook\<close>

text \<open>\<^verbatim>\<open>deriveNamespaceGeneric\<close>: the namespace of the hook's manifest, else the release's.\<close>

definition deriveNamespaceGeneric ::
  "configuration \<Rightarrow> hook_accessor \<Rightarrow> string \<Rightarrow> world \<Rightarrow> err + string" where
  "deriveNamespaceGeneric cfg h namespace w =
     (case YamlUnmarshal cfg (HookAccessor_Manifest h w) of
        Inl e \<Rightarrow>
          Inl (Errorf
            ''unable to parse metadata.namespace from kubernetes manifest for output logs hook %s: %w''
            [HookAccessor_Path h w] e)
      | Inr ns \<Rightarrow> if ns = [] then Inr namespace else Inr ns)"

definition outputContainerLogsForListOptions ::
  "configuration \<Rightarrow> string \<Rightarrow> list_options \<Rightarrow> world \<Rightarrow> err option \<times> world" where
  "outputContainerLogsForListOptions cfg namespace listOptions w =
     (case kube_GetPodList cfg namespace listOptions w of
        (Inl e, w1) \<Rightarrow> (Some e, w1)
      | (Inr podList, w1) \<Rightarrow> kube_OutputContainerLogsForPodList cfg podList namespace w1)"

definition outputLogsByPolicyGeneric ::
  "configuration \<Rightarrow> hook_accessor \<Rightarrow> string \<Rightarrow> string \<Rightarrow> world \<Rightarrow> err option \<times> world" where
  "outputLogsByPolicyGeneric cfg h releaseNamespace policy w =
     (if \<not> HookAccessor_HasOutputLogPolicy h policy w then (None, w)
      else
        (case deriveNamespaceGeneric cfg h releaseNamespace w of
           Inl e \<Rightarrow> (Some e, w)
         | Inr namespace \<Rightarrow>
             if HookAccessor_Kind h w = ''Job'' then
               outputContainerLogsForListOptions cfg namespace
                 \<lparr>LabelSelector = ''job-name='' @ HookAccessor_Name h w, FieldSelector = []\<rparr> w
             else if HookAccessor_Kind h w = ''Pod'' then
               outputContainerLogsForListOptions cfg namespace
                 \<lparr>LabelSelector = [], FieldSelector = ''metadata.name='' @ HookAccessor_Name h w\<rparr> w
             else (None, w)))"

section \<open>Executing the hooks of an event\<close>

text \<open>\<^verbatim>\<open>ExecuteShutdownFunc\<close>, a \<^verbatim>\<open>func() error\<close>, run on the world of its invocation.\<close>

type_synonym shutdown = "world \<Rightarrow> err option \<times> world"

definition shutdownNoOp :: shutdown where
  "shutdownNoOp w = (None, w)"

record hookExecutionCallbacks =
  recordRelease :: "world \<Rightarrow> world"
  deleteByPolicy :: "hook_accessor \<Rightarrow> string \<Rightarrow> world \<Rightarrow> err option \<times> world"
  outputLogsByPolicy :: "hook_accessor \<Rightarrow> string \<Rightarrow> world \<Rightarrow> err option \<times> world"

text \<open>The \<^verbatim>\<open>less\<close> closure handed to \<^verbatim>\<open>sort.SliceStable\<close>, on the elements it compares.\<close>

definition hook_less :: "world \<Rightarrow> hook_accessor \<Rightarrow> hook_accessor \<Rightarrow> bool" where
  "hook_less w a b =
     (if HookAccessor_Weight a w = HookAccessor_Weight b w
      then HookAccessor_Name a w < HookAccessor_Name b w
      else HookAccessor_Weight a w < HookAccessor_Weight b w)"

text \<open>
  \<^verbatim>\<open>sort.SliceStable\<close> belongs to Go's standard library: it sorts by \<^verbatim>\<open>less\<close> and keeps
  the original order of elements of which neither is less than the other. It is the stable
  insertion sort: an element goes in front of the first later element that is not less than it.
\<close>

fun insert_stable :: "('a \<Rightarrow> 'a \<Rightarrow> bool) \<Rightarrow> 'a \<Rightarrow> 'a list \<Rightarrow> 'a list" where
  "insert_stable lessf x [] = [x]"
| "insert_stable lessf x (y # ys) =
     (if lessf y x then y # insert_stable lessf x ys else x # y # ys)"

fun sort_SliceStable :: "('a \<Rightarrow> 'a \<Rightarrow> bool) \<Rightarrow> 'a list \<Rightarrow> 'a list" where
  "sort_SliceStable lessf [] = []"
| "sort_SliceStable lessf (x # xs) = insert_stable lessf x (sort_SliceStable lessf xs)"

text \<open>
  The loop of the cleanup returned after a failed wait:
  \<^verbatim>\<open>for j := 0; j < i; j++\<close> over \<^verbatim>\<open>executingHooks[j]\<close>, then \<^verbatim>\<open>return err\<close>.
\<close>

function delete_previous ::
  "hookExecutionCallbacks \<Rightarrow> hook_accessor list \<Rightarrow> nat \<Rightarrow> nat \<Rightarrow> err \<Rightarrow> world
     \<Rightarrow> err option \<times> world" where
  "delete_previous cb executingHooks i j e w =
     (if j < i then
        (case deleteByPolicy cb (executingHooks ! j) HookDeletePolicySucceeded w of
           (Some ed, w1) \<Rightarrow> (Some ed, w1)
         | (None, w1) \<Rightarrow> delete_previous cb executingHooks i (j + 1) e w1)
      else (Some e, w))"
  by pat_completeness auto
termination
  by (relation "measure (\<lambda>(cb, hs, i, j, e, w). i - j)") auto

declare delete_previous.simps [simp del]

text \<open>The closure returned when the wait for hook \<open>i\<close> failed with \<open>e\<close>.\<close>

definition shutdown_on_failure ::
  "hookExecutionCallbacks \<Rightarrow> hook_accessor list \<Rightarrow> nat \<Rightarrow> hook_accessor \<Rightarrow> err \<Rightarrow> shutdown" where
  "shutdown_on_failure cb executingHooks i h e w =
     (case deleteByPolicy cb h HookDeletePolicyFailed w of
        (r, w1) \<Rightarrow>
          delete_previous cb executingHooks i 0 e
            (case r of
               Some errDeleting \<Rightarrow>
                 log_Printf ''error deleting the hook resource on hook failure: %v'' errDeleting w1
             | None \<Rightarrow> w1))"

text \<open>
  The loop of the cleanup returned when all hooks succeeded:
  \<^verbatim>\<open>for i := len(executingHooks) - 1; i >= 0; i--\<close>.
\<close>

function cleanup_succeeded ::
  "hookExecutionCallbacks \<Rightarrow> hook_accessor list \<Rightarrow> int \<Rightarrow> world \<Rightarrow> err option \<times> world" where
  "cleanup_succeeded cb executingHooks i w =
     (if i \<ge> 0 then
        (let h = executingHooks ! nat i in
         case outputLogsByPolicy cb h HookOutputPolicySucceeded w of
           (r, w1) \<Rightarrow>
             (case deleteByPolicy cb h HookDeletePolicySucceeded
                     (case r of
                        Some e \<Rightarrow> log_Printf ''error outputting logs for hook success: %v'' e w1
                      | None \<Rightarrow> w1) of
                (Some e, w2) \<Rightarrow> (Some e, w2)
              | (None, w2) \<Rightarrow> cleanup_succeeded cb executingHooks (i - 1) w2))
      else (None, w))"
  by pat_completeness auto
termination
  by (relation "measure (\<lambda>(cb, hs, i, w). nat (i + 1))") auto

declare cleanup_succeeded.simps [simp del]

definition shutdown_on_success :: "hookExecutionCallbacks \<Rightarrow> hook_accessor list \<Rightarrow> shutdown" where
  "shutdown_on_success cb executingHooks w =
     cleanup_succeeded cb executingHooks (int (length executingHooks) - 1) w"

text \<open>
  The body of the loop over the hooks, in two parts. The first part runs from the default
  delete policy to the phase \<^verbatim>\<open>Unknown\<close>: it returns from \<^verbatim>\<open>execHookCore\<close> (\<open>Inl\<close>, with
  the shutdown function and the error returned) or goes on with the resources built.
\<close>

definition hook_prepare ::
  "configuration \<Rightarrow> hookExecutionCallbacks \<Rightarrow> string \<Rightarrow> hook_accessor \<Rightarrow> world
     \<Rightarrow> ((shutdown \<times> err) + resource_list) \<times> world" where
  "hook_prepare cfg cb hookEvent h w =
     (case deleteByPolicy cb h HookDeletePolicyBeforeCreation
             (HookAccessor_SetDefaultDeletePolicy h w) of
        (Some e, w1) \<Rightarrow> (Inl (shutdownNoOp, e), w1)
      | (None, w1) \<Rightarrow>
          (case kube_Build cfg (HookAccessor_Manifest h w1) True w1 of
             (Inl e, w2) \<Rightarrow>
               (Inl (shutdownNoOp,
                     Errorf ''unable to build kubernetes object for %s hook %s: %w''
                       [hookEvent, HookAccessor_Path h w2] e), w2)
           | (Inr resources, w2) \<Rightarrow>
               (Inr resources,
                HookAccessor_SetLastRunPhase h HookPhaseUnknown
                  (recordRelease cb (HookAccessor_SetLastRunStarted cfg h w2)))))"

text \<open>
  The second part creates the resources and watches them: it returns from
  \<^verbatim>\<open>execHookCore\<close> (\<open>Some\<close>) or lets the loop go on to the next hook (\<open>None\<close>).
\<close>

definition hook_apply ::
  "configuration \<Rightarrow> hookExecutionCallbacks \<Rightarrow> string \<Rightarrow> string \<Rightarrow> int \<Rightarrow> bool
     \<Rightarrow> hook_accessor list \<Rightarrow> nat \<Rightarrow> hook_accessor \<Rightarrow> resource_list \<Rightarrow> world
     \<Rightarrow> (shutdown \<times> err) option \<times> world" where
  "hook_apply cfg cb hookEvent waitStrategy timeout serverSideApply executingHooks i h resources w =
     (case kube_Create cfg resources serverSideApply w of
        (Some e, w1) \<Rightarrow>
          (let w2 = HookAccessor_SetLastRunPhase h HookPhaseFailed
                      (HookAccessor_SetLastRunCompleted cfg h w1)
           in (Some (shutdownNoOp,
                     Errorf ''warning: Hook %s %s failed: %w''
                       [hookEvent, HookAccessor_Path h w2] e), w2))
      | (None, w1) \<Rightarrow>
          (case kube_GetWaiter cfg waitStrategy w1 of
             (Some e, w2) \<Rightarrow> (Some (shutdownNoOp, Errorf ''unable to get waiter: %w'' [] e), w2)
           | (None, w2) \<Rightarrow>
               (case waiter_WatchUntilReady cfg resources timeout w2 of
                  (r, w3) \<Rightarrow>
                    (let w4 = HookAccessor_SetLastRunCompleted cfg h w3 in
                     case r of
                       Some e \<Rightarrow>
                         (case outputLogsByPolicy cb h HookOutputPolicyFailed
                                 (HookAccessor_SetLastRunPhase h HookPhaseFailed w4) of
                            (lr, w5) \<Rightarrow>
                              (Some (shutdown_on_failure cb executingHooks i h e, e),
                               case lr of
                                 Some errOutputting \<Rightarrow>
                                   log_Printf ''error outputting logs for hook failure: %v''
                                     errOutputting w5
                               | None \<Rightarrow> w5))
                     | None \<Rightarrow>
                         (None, HookAccessor_SetLastRunPhase h HookPhaseSucceeded w4)))))"

definition exec_one ::
  "configuration \<Rightarrow> hookExecutionCallbacks \<Rightarrow> string \<Rightarrow> string \<Rightarrow> int \<Rightarrow> bool
     \<Rightarrow> hook_accessor list \<Rightarrow> nat \<Rightarrow> hook_accessor \<Rightarrow> world
     \<Rightarrow> (shutdown \<times> err) option \<times> world" where
  "exec_one cfg cb hookEvent waitStrategy timeout serverSideApply executingHooks i h w =
     (case hook_prepare cfg cb hookEvent h w of
        (Inl ret, w1) \<Rightarrow> (Some ret, w1)
      | (Inr resources, w1) \<Rightarrow>
          hook_apply cfg cb hookEvent waitStrategy timeout serverSideApply executingHooks i h
            resources w1)"

text \<open>
  \<^verbatim>\<open>for i, h := range executingHooks\<close>: the hooks still to run, with the index of the
  first of them; after the last hook, the cleanup of the successful run and the nil error.
\<close>

fun exec_loop ::
  "configuration \<Rightarrow> hookExecutionCallbacks \<Rightarrow> string \<Rightarrow> string \<Rightarrow> int \<Rightarrow> bool
     \<Rightarrow> hook_accessor list \<Rightarrow> nat \<Rightarrow> hook_accessor list \<Rightarrow> world
     \<Rightarrow> shutdown \<times> err option \<times> world" where
  "exec_loop cfg cb hookEvent waitStrategy timeout serverSideApply executingHooks i [] w =
     (shutdown_on_success cb executingHooks, None, w)"
| "exec_loop cfg cb hookEvent waitStrategy timeout serverSideApply executingHooks i (h # rest) w =
     (case exec_one cfg cb hookEvent waitStrategy timeout serverSideApply executingHooks i h w of
        (Some (sd, e), w1) \<Rightarrow> (sd, Some e, w1)
      | (None, w1) \<Rightarrow>
          exec_loop cfg cb hookEvent waitStrategy timeout serverSideApply executingHooks
            (Suc i) rest w1)"

text \<open>\<^verbatim>\<open>execHookCore\<close>; its third parameter, the namespace, is unused in the source too.\<close>

definition execHookCore ::
  "configuration \<Rightarrow> hook_accessor list \<Rightarrow> string \<Rightarrow> string \<Rightarrow> string \<Rightarrow> int \<Rightarrow> bool
     \<Rightarrow> hookExecutionCallbacks \<Rightarrow> world \<Rightarrow> shutdown \<times> err option \<times> world" where
  "execHookCore cfg executingHooks hookEvent namespace waitStrategy timeout serverSideApply
       callbacks w =
     (let sorted_hooks = sort_SliceStable (hook_less w) executingHooks
      in exec_loop cfg callbacks hookEvent waitStrategy timeout serverSideApply
           sorted_hooks 0 sorted_hooks w)"

text \<open>
  The selection loops of \<^verbatim>\<open>execHookWithDelayedShutdown\<close> and of its V3 twin: for each
  hook of the release, for each of its events, append an accessor when the event is the one
  executed.
\<close>

fun append_matching :: "hook_accessor \<Rightarrow> string list \<Rightarrow> string \<Rightarrow> hook_accessor list" where
  "append_matching acc [] hook = []"
| "append_matching acc (e # es) hook =
     (if e = hook then acc # append_matching acc es hook else append_matching acc es hook)"

fun select_hooks ::
  "(addr \<Rightarrow> hook_accessor) \<Rightarrow> addr list \<Rightarrow> string \<Rightarrow> world \<Rightarrow> hook_accessor list" where
  "select_hooks new_acc [] hook w = []"
| "select_hooks new_acc (h # hs) hook w =
     append_matching (new_acc h) (Events (heap w h)) hook @ select_hooks new_acc hs hook w"

text \<open>
  The callbacks of the two entry points. \<^verbatim>\<open>cfg.recordRelease\<close> and
  \<^verbatim>\<open>cfg.Releases.Update\<close> hand the release to the storage: a call that carries the hooks
  of the release as they are at that moment.
\<close>

definition callbacks_v1 ::
  "configuration \<Rightarrow> release \<Rightarrow> string \<Rightarrow> int \<Rightarrow> hookExecutionCallbacks" where
  "callbacks_v1 cfg rl waitStrategy timeout =
     \<lparr>recordRelease = (\<lambda>w. emit (RecordRelease (map (heap w) (Hooks rl))) w),
      deleteByPolicy = (\<lambda>h policy. deleteHookByPolicyGeneric cfg h policy waitStrategy timeout),
      outputLogsByPolicy = (\<lambda>h policy. outputLogsByPolicyGeneric cfg h (Namespace rl) policy)\<rparr>"

definition callbacks_v3 ::
  "configuration \<Rightarrow> release \<Rightarrow> string \<Rightarrow> int \<Rightarrow> hookExecutionCallbacks" where
  "callbacks_v3 cfg rl waitStrategy timeout =
     \<lparr>recordRelease = (\<lambda>w. emit (ReleasesUpdate (map (heap w) (Hooks rl))) w),
      deleteByPolicy = (\<lambda>h policy. deleteHookByPolicyGeneric cfg h policy waitStrategy timeout),
      outputLogsByPolicy = (\<lambda>h policy. outputLogsByPolicyGeneric cfg h (Namespace rl) policy)\<rparr>"

definition execHookWithDelayedShutdown ::
  "configuration \<Rightarrow> release \<Rightarrow> string \<Rightarrow> string \<Rightarrow> int \<Rightarrow> bool \<Rightarrow> world
     \<Rightarrow> shutdown \<times> err option \<times> world" where
  "execHookWithDelayedShutdown cfg rl hook waitStrategy timeout serverSideApply w =
     execHookCore cfg (select_hooks V1HookAccessor (Hooks rl) hook w) hook (Namespace rl)
       waitStrategy timeout serverSideApply (callbacks_v1 cfg rl waitStrategy timeout) w"

definition execHookWithDelayedShutdownV3 ::
  "configuration \<Rightarrow> release \<Rightarrow> string \<Rightarrow> string \<Rightarrow> int \<Rightarrow> bool \<Rightarrow> world
     \<Rightarrow> shutdown \<times> err option \<times> world" where
  "execHookWithDelayedShutdownV3 cfg rl hook waitStrategy timeout serverSideApply w =
     execHookCore cfg (select_hooks V2HookAccessor (Hooks rl) hook w) hook (Namespace rl)
       waitStrategy timeout serverSideApply (callbacks_v3 cfg rl waitStrategy timeout) w"

section \<open>The cleanup and the success of hooks, in the words of the specification\<close>

text \<open>The order in which \<^verbatim>\<open>execHookCore\<close> runs the hooks it is given.\<close>

definition execution_order :: "world \<Rightarrow> hook_accessor list \<Rightarrow> hook_accessor list" where
  "execution_order w es = sort_SliceStable (hook_less w) es"

text \<open>The sort key of the specification: weight, then name.\<close>

definition hook_key :: "world \<Rightarrow> hook_accessor \<Rightarrow> int \<times> string" where
  "hook_key w a = (HookAccessor_Weight a w, HookAccessor_Name a w)"

definition weight_name_le :: "world \<Rightarrow> hook_accessor \<Rightarrow> hook_accessor \<Rightarrow> bool" where
  "weight_name_le w a b =
     (HookAccessor_Weight a w < HookAccessor_Weight b w \<or>
      (HookAccessor_Weight a w = HookAccessor_Weight b w \<and>
       HookAccessor_Name a w \<le> HookAccessor_Name b w))"

text \<open>
  Deleting the hooks of a list by a policy, first to last, up to the first deletion
  that fails.
\<close>

fun spec_delete_each ::
  "hookExecutionCallbacks \<Rightarrow> string \<Rightarrow> hook_accessor list \<Rightarrow> world \<Rightarrow> err option \<times> world" where
  "spec_delete_each cb policy [] w = (None, w)"
| "spec_delete_each cb policy (h # hs) w =
     (case deleteByPolicy cb h policy w of
        (Some e, w1) \<Rightarrow> (Some e, w1)
      | (None, w1) \<Rightarrow> spec_delete_each cb policy hs w1)"

text \<open>
  The cleanup after a failed wait: delete the failed hook by "hook-failed", logging an
  error of that deletion; then delete the hooks that had succeeded, in their order, by
  "hook-succeeded"; the first deletion error of those, else the error of the wait.
\<close>

definition spec_cleanup_after_failure ::
  "hookExecutionCallbacks \<Rightarrow> hook_accessor \<Rightarrow> hook_accessor list \<Rightarrow> err \<Rightarrow> world
     \<Rightarrow> err option \<times> world" where
  "spec_cleanup_after_failure cb failed previous e w =
     (case deleteByPolicy cb failed ''hook-failed'' w of
        (r, w1) \<Rightarrow>
          (case spec_delete_each cb ''hook-succeeded'' previous
                  (case r of
                     Some ed \<Rightarrow>
                       log_Printf ''error deleting the hook resource on hook failure: %v'' ed w1
                   | None \<Rightarrow> w1) of
             (Some ed, w2) \<Rightarrow> (Some ed, w2)
           | (None, w2) \<Rightarrow> (Some e, w2)))"

text \<open>
  The cleanup after a successful run, over the hooks in the order of the walk: emit the
  "hook-succeeded" logs, logging an error of that; delete by "hook-succeeded"; a deletion
  error ends the walk and is returned.
\<close>

fun spec_cleanup_succeeded ::
  "hookExecutionCallbacks \<Rightarrow> hook_accessor list \<Rightarrow> world \<Rightarrow> err option \<times> world" where
  "spec_cleanup_succeeded cb [] w = (None, w)"
| "spec_cleanup_succeeded cb (h # hs) w =
     (case outputLogsByPolicy cb h ''hook-succeeded'' w of
        (r, w1) \<Rightarrow>
          (case deleteByPolicy cb h ''hook-succeeded''
                  (case r of
                     Some e \<Rightarrow> log_Printf ''error outputting logs for hook success: %v'' e w1
                   | None \<Rightarrow> w1) of
             (Some e, w2) \<Rightarrow> (Some e, w2)
           | (None, w2) \<Rightarrow> spec_cleanup_succeeded cb hs w2))"

text \<open>
  A hook succeeds from a world when its stale resources are deleted, its manifest is built,
  its resources are created, the waiter is obtained and the wait reports them ready.
\<close>

definition hook_succeeds ::
  "configuration \<Rightarrow> hookExecutionCallbacks \<Rightarrow> string \<Rightarrow> string \<Rightarrow> int \<Rightarrow> bool
     \<Rightarrow> hook_accessor \<Rightarrow> world \<Rightarrow> bool" where
  "hook_succeeds cfg cb ev ws to ssa h w =
     (case hook_prepare cfg cb ev h w of
        (Inl ret, w1) \<Rightarrow> False
      | (Inr res, w1) \<Rightarrow>
          KubeClient_Create cfg (trace w1) res ssa = None \<and>
          KubeClient_GetWaiter cfg (trace w1 @ [Create res ssa]) ws = None \<and>
          Waiter_WatchUntilReady cfg (trace w1 @ [Create res ssa, GetWaiter ws]) res to = None)"

text \<open>The hooks of a list succeed one after the other, each from the world the last left.\<close>

fun hooks_succeed ::
  "configuration \<Rightarrow> hookExecutionCallbacks \<Rightarrow> string \<Rightarrow> string \<Rightarrow> int \<Rightarrow> bool
     \<Rightarrow> hook_accessor list \<Rightarrow> nat \<Rightarrow> hook_accessor list \<Rightarrow> world \<Rightarrow> bool" where
  "hooks_succeed cfg cb ev ws to ssa all i [] w = True"
| "hooks_succeed cfg cb ev ws to ssa all i (h # rest) w =
     (hook_succeeds cfg cb ev ws to ssa h w \<and>
      hooks_succeed cfg cb ev ws to ssa all (Suc i) rest
        (snd (exec_one cfg cb ev ws to ssa all i h w)))"

text \<open>The world that the loop leaves after the hooks \<open>hs\<close>, the first of the hooks \<open>all\<close>.\<close>

definition world_after ::
  "configuration \<Rightarrow> hookExecutionCallbacks \<Rightarrow> string \<Rightarrow> string \<Rightarrow> int \<Rightarrow> bool
     \<Rightarrow> hook_accessor list \<Rightarrow> hook_accessor list \<Rightarrow> world \<Rightarrow> world" where
  "world_after cfg cb ev ws to ssa all hs w =
     snd (snd (exec_loop cfg cb ev ws to ssa all 0 hs w))"

section \<open>An example cluster and release\<close>

text \<open>
  A cluster client that refuses to validate the manifest \<open>invalid\<close>, rejects the creation of
  the resources of the manifest \<open>rejected\<close>, never sees the resources of the manifest
  \<open>never-ready\<close> ready and finds no pods to read logs from; the clock counts the calls
  issued.
\<close>

definition example_cfg :: configuration where
  "example_cfg =
     \<lparr>KubeClient_Build =
        (\<lambda>tr m validate.
           if m = ''invalid'' \<and> validate then Inl (ExternalError ''invalid manifest'')
           else Inr [m]),
      KubeClient_Create =
        (\<lambda>tr rs ssa. if rs = [''rejected''] then Some (ExternalError ''rejected'') else None),
      KubeClient_Delete = (\<lambda>tr rs. []),
      KubeClient_GetWaiter = (\<lambda>tr strategy. None),
      Waiter_WatchUntilReady =
        (\<lambda>tr rs timeout.
           if rs = [''never-ready''] then Some (ExternalError ''timed out'') else None),
      Waiter_WaitForDelete = (\<lambda>tr rs timeout. None),
      KubeClient_GetPodList = (\<lambda>tr ns opts. Inl (ExternalError ''no pods'')),
      KubeClient_OutputContainerLogsForPodList = (\<lambda>tr pods ns. None),
      Time_Now = (\<lambda>tr. length tr),
      YamlUnmarshal =
        (\<lambda>m. if m = ''invalid'' then Inl (ExternalError ''not yaml'')
             else if m = ''in-foo'' then Inr ''foo'' else Inr [])\<rparr>"

definition example_hook :: "string \<Rightarrow> string \<Rightarrow> int \<Rightarrow> string \<Rightarrow> hook" where
  "example_hook name kind weight manifest =
     \<lparr>Name = name, Kind = kind, Path = name, Manifest = manifest, Weight = weight,
      Events = [''pre-install''], DeletePolicies = [], OutputLogPolicies = [],
      LastRun = \<lparr>StartedAt = 0, CompletedAt = 0, Phase = []\<rparr>\<rparr>"

text \<open>
  Three hooks: at address 0 the hook \<open>b\<close> of weight 1 with the manifest given, at address 1
  the hook \<open>a\<close> of weight 1, elsewhere the hook \<open>c\<close> of weight 2.
\<close>

definition example_world :: "string \<Rightarrow> world" where
  "example_world m =
     \<lparr>heap = (\<lambda>p. if p = 0 then example_hook ''b'' ''Job'' 1 m
                  else if p = 1 then example_hook ''a'' ''Job'' 1 ''a-manifest''
                  else example_hook ''c'' ''Job'' 2 ''c-manifest''),
      trace = []\<rparr>"

text \<open>
  The same three hooks, each with the delete policies and the output log policies
  "hook-succeeded" and "hook-failed".
\<close>

definition example_world_policies :: "string \<Rightarrow> world" where
  "example_world_policies m =
     \<lparr>heap = (\<lambda>p. (heap (example_world m) p)
                     \<lparr>DeletePolicies := [''hook-succeeded'', ''hook-failed''],
                      OutputLogPolicies := [''hook-succeeded'', ''hook-failed'']\<rparr>),
      trace = []\<rparr>"

definition example_hooks :: "hook_accessor list" where
  "example_hooks = [V1HookAccessor 0, V1HookAccessor 1, V1HookAccessor 2]"

definition example_release :: release where
  "example_release = \<lparr>Hooks = [0, 1, 2], Namespace = ''default''\<rparr>"

definition example_callbacks :: hookExecutionCallbacks where
  "example_callbacks = callbacks_v1 example_cfg example_release ''watcher'' 300"

text \<open>The manifests of the calls that build a hook to create it, in the order of the calls.\<close>

definition validated_builds :: "call list \<Rightarrow> string list" where
  "validated_builds tr =
     concat (map (\<lambda>c. case c of Build m validate \<Rightarrow> if validate then [m] else [] | _ \<Rightarrow> []) tr)"

text \<open>The resources of the delete calls, and the formats of the log lines, in their order.\<close>

definition deletions :: "call list \<Rightarrow> resource_list list" where
  "deletions tr = concat (map (\<lambda>c. case c of Delete rs \<Rightarrow> [rs] | _ \<Rightarrow> []) tr)"

definition log_lines :: "call list \<Rightarrow> string list" where
  "log_lines tr = concat (map (\<lambda>c. case c of LogPrintf fmt e \<Rightarrow> [fmt] | _ \<Rightarrow> []) tr)"

text \<open>A release with one hook, whose event list names the event "pre-install" twice.\<close>

definition duplicate_event_world :: world where
  "duplicate_event_world =
     \<lparr>heap = (\<lambda>p. (example_hook ''twice'' ''Job'' 0 ''twice-manifest'')
                     \<lparr>Events := [''pre-install'', ''pre-install'']\<rparr>),
      trace = []\<rparr>"

definition duplicate_event_release :: release where
  "duplicate_event_release = \<lparr>Hooks = [0], Namespace = ''default''\<rparr>"

definition is_Create :: "call \<Rightarrow> bool" where
  "is_Create c = (case c of Create rs ssa \<Rightarrow> True | _ \<Rightarrow> False)"

section \<open>The dependency graph scheduler\<close>

text \<open>
  Modelled from the spec: \<^verbatim>\<open>GetInstallationBatches\<close> and the dependency graph it works
  on. The sources hold the plan of the scheduler only, where the body of the function is a
  comment. A graph lists the direct subcharts of a chart, each with the names it depends
  on; an edge \<open>(a, b)\<close> says that \<open>a\<close> must be ready before \<open>b\<close> is installed, and names that
  are not subcharts of the chart make no edge.
\<close>

type_synonym dependency_graph = "(string \<times> string list) list"

definition subcharts :: "dependency_graph \<Rightarrow> string list" where
  "subcharts g = map fst g"

definition graph_edges :: "dependency_graph \<Rightarrow> (string \<times> string) list" where
  "graph_edges g =
     concat (map (\<lambda>(n, ds). map (\<lambda>d. (d, n)) (filter (\<lambda>d. d \<in> set (subcharts g)) ds)) g)"

text \<open>Modelled from the spec: an isolated node has no incoming and no outgoing edge.\<close>

definition isolated :: "dependency_graph \<Rightarrow> string \<Rightarrow> bool" where
  "isolated g n = list_all (\<lambda>(a, b). a \<noteq> n \<and> b \<noteq> n) (graph_edges g)"

text \<open>
  Modelled from the spec: a node can join the next tier when all its predecessors are
  placed in earlier tiers.
\<close>

definition predecessors_placed :: "dependency_graph \<Rightarrow> string list \<Rightarrow> string \<Rightarrow> bool" where
  "predecessors_placed g placed n =
     list_all (\<lambda>(a, b). b \<noteq> n \<or> a \<in> set placed) (graph_edges g)"

text \<open>
  Modelled from the spec: iterative peeling. The next tier is the nodes not yet placed whose
  predecessors are all placed; the peeling ends when no node is left or, in a graph with a
  cycle, when no node can be placed.
\<close>

function peel :: "dependency_graph \<Rightarrow> string list \<Rightarrow> string list \<Rightarrow> string list list" where
  "peel g placed remaining =
     (let tier = filter (predecessors_placed g placed) remaining
      in if tier = [] then []
         else tier # peel g (placed @ tier) (filter (\<lambda>n. n \<notin> set tier) remaining))"
  by pat_completeness auto
termination
proof (relation "measure (\<lambda>(g, placed, remaining). length remaining)")
  show "wf (measure (\<lambda>(g, placed, remaining). length remaining))" by simp
next
  fix g :: dependency_graph and placed remaining tier :: "string list"
  assume t: "tier = filter (predecessors_placed g placed) remaining" and ne: "tier \<noteq> []"
  from ne obtain x where x: "x \<in> set tier" by (cases tier) auto
  with t have "x \<in> set remaining" by auto
  with x have "length (filter (\<lambda>n. n \<notin> set tier) remaining) < length remaining"
    by (intro length_filter_less) auto
  then show "((g, placed @ tier, filter (\<lambda>n. n \<notin> set tier) remaining), (g, placed, remaining))
      \<in> measure (\<lambda>(g, placed, remaining). length remaining)"
    by simp
qed

declare peel.simps [simp del]

datatype batch_item = Subchart string | OwnResources string

text \<open>
  Modelled from the spec: the installation batches of a chart. The isolated nodes are left
  out of the peeling and make the last tier, together with the chart's own resources.
\<close>

definition GetInstallationBatches :: "dependency_graph \<Rightarrow> string \<Rightarrow> batch_item list list" where
  "GetInstallationBatches g owner =
     map (map Subchart) (peel g [] (filter (\<lambda>n. \<not> isolated g n) (subcharts g)))
     @ [map Subchart (filter (isolated g) (subcharts g)) @ [OwnResources owner]]"

definition example_graph :: dependency_graph where
  "example_graph =
     [(''nginx'', []), (''rabbitmq'', []), (''bar'', [''nginx'', ''rabbitmq'']), (''orphaned'', [])]"

section \<open>Properties\<close>

subsection \<open>Evaluation of the example\<close>

lemmas example_defs = example_cfg_def example_hooks_def example_world_def example_hook_def
  example_release_def example_callbacks_def

lemmas engine_defs = exec_one_def hook_prepare_def hook_apply_def
  callbacks_v1_def deleteHookByPolicyGeneric_def outputLogsByPolicyGeneric_def
  kube_Build_def kube_Create_def kube_Delete_def kube_GetWaiter_def waiter_WatchUntilReady_def
  waiter_WaitForDelete_def emit_def time_Now_def log_Printf_def update_hook_def
  set_default_delete_policy_def hook_less_def
  HookDeletePolicyBeforeCreation_def HookBeforeHookCreation_def HookPhaseUnknown_def
  HookPhaseRunning_def HookPhaseSucceeded_def HookPhaseFailed_def HookOutputPolicyFailed_def
  HookOutputPolicySucceeded_def HookDeletePolicyFailed_def HookDeletePolicySucceeded_def

lemma example_order:
  "execution_order (example_world m) example_hooks =
     [V1HookAccessor 1, V1HookAccessor 0, V1HookAccessor 2]"
  by (simp add: execution_order_def example_defs hook_less_def)

lemma example_order_policies:
  "execution_order (example_world_policies m) example_hooks =
     [V1HookAccessor 1, V1HookAccessor 0, V1HookAccessor 2]"
  by (simp add: execution_order_def example_defs example_world_policies_def hook_less_def)

lemmas example_run_defs = example_defs engine_defs example_world_policies_def
  outputContainerLogsForListOptions_def kube_GetPodList_def
  kube_OutputContainerLogsForPodList_def deriveNamespaceGeneric_def

subsection \<open>The default delete policy\<close>

text \<open>
  C8. \<^verbatim>\<open>SetDefaultDeletePolicy\<close>, of either accessor, makes an empty delete-policy list
  the list of the one policy "before-hook-creation", leaves a non-empty list as it is, and
  applied twice gives the world that applying it once gives.
\<close>

theorem SetDefaultDeletePolicy_idempotent:
  "DeletePolicies (heap (HookAccessor_SetDefaultDeletePolicy a w) (hook_ptr a)) =
     (if DeletePolicies (heap w (hook_ptr a)) = [] then [''before-hook-creation'']
      else DeletePolicies (heap w (hook_ptr a)))
   \<and> HookAccessor_SetDefaultDeletePolicy a (HookAccessor_SetDefaultDeletePolicy a w) =
       HookAccessor_SetDefaultDeletePolicy a w"
  by (cases a)
     (simp_all add: update_hook_def set_default_delete_policy_def HookBeforeHookCreation_def)

subsection \<open>Custom resource definitions\<close>

text \<open>
  C4. For a hook of kind "CustomResourceDefinition", deleting by any policy returns the nil
  error and leaves the world as it is: no call is issued, whatever the delete policies of
  the hook.
\<close>

theorem crd_never_deleted:
  "HookAccessor_Kind h w = ''CustomResourceDefinition'' \<Longrightarrow>
     deleteHookByPolicyGeneric cfg h policy waitStrategy timeout w = (None, w)"
  by (simp add: deleteHookByPolicyGeneric_def)

theorem crd_never_deleted_witness:
  "HookAccessor_Kind (V1HookAccessor 0)
       \<lparr>heap = (\<lambda>p. (example_hook ''crd'' ''CustomResourceDefinition'' 0 ''crd-manifest'')
                      \<lparr>DeletePolicies := [''hook-succeeded'']\<rparr>), trace = []\<rparr>
     = ''CustomResourceDefinition''
   \<and> deleteHookByPolicyGeneric example_cfg (V1HookAccessor 0) ''hook-succeeded'' ''watcher'' 300
       \<lparr>heap = (\<lambda>p. (example_hook ''crd'' ''CustomResourceDefinition'' 0 ''crd-manifest'')
                      \<lparr>DeletePolicies := [''hook-succeeded'']\<rparr>), trace = []\<rparr>
     = (None, \<lparr>heap = (\<lambda>p. (example_hook ''crd'' ''CustomResourceDefinition'' 0 ''crd-manifest'')
                      \<lparr>DeletePolicies := [''hook-succeeded'']\<rparr>), trace = []\<rparr>)"
proof -
  have k: "HookAccessor_Kind (V1HookAccessor 0)
       \<lparr>heap = (\<lambda>p. (example_hook ''crd'' ''CustomResourceDefinition'' 0 ''crd-manifest'')
                      \<lparr>DeletePolicies := [''hook-succeeded'']\<rparr>), trace = []\<rparr>
     = ''CustomResourceDefinition''"
    by (simp add: example_hook_def)
  from k crd_never_deleted [OF k] show ?thesis by simp
qed

subsection \<open>The order of execution\<close>

lemma hook_less_key: "hook_less w a b = (hook_key w a < hook_key w b)"
  by (auto simp: hook_less_def hook_key_def)

lemma insert_stable_insort_key:
  "insert_stable (\<lambda>a b. k a < k b) x ys = insort_key k x ys"
  by (induction ys) (auto simp: not_less)

lemma sort_SliceStable_sort_key:
  "sort_SliceStable (\<lambda>a b. k a < (k b :: 'k :: linorder)) xs = sort_key k xs"
  by (induction xs) (simp_all add: insert_stable_insort_key sort_key_def)

lemma execution_order_sort_key: "execution_order w xs = sort_key (hook_key w) xs"
proof -
  have "hook_less w = (\<lambda>a b. hook_key w a < hook_key w b)"
    by (intro ext) (rule hook_less_key)
  then show ?thesis by (simp add: execution_order_def sort_SliceStable_sort_key)
qed

lemma weight_name_le_key: "weight_name_le w a b = (hook_key w a \<le> hook_key w b)"
  by (auto simp: weight_name_le_def hook_key_def)

lemma sorted_wrt_weight_name:
  "sorted_wrt (weight_name_le w) xs = sorted (map (hook_key w) xs)"
proof -
  have "weight_name_le w = (\<lambda>a b. hook_key w a \<le> hook_key w b)"
    by (intro ext) (rule weight_name_le_key)
  then show ?thesis by (simp add: sorted_map)
qed

lemma execution_order_stable:
  "filter (\<lambda>a. HookAccessor_Weight a w = wt \<and> HookAccessor_Name a w = nm)
     (execution_order w xs) =
   filter (\<lambda>a. HookAccessor_Weight a w = wt \<and> HookAccessor_Name a w = nm) xs"
  using sort_key_stable [of "hook_key w" "(wt, nm)" xs]
  by (simp add: execution_order_sort_key hook_key_def)

lemma execution_order_three:
  "HookAccessor_Weight a w = HookAccessor_Weight b w \<Longrightarrow>
   HookAccessor_Name b w < HookAccessor_Name a w \<Longrightarrow>
   HookAccessor_Weight a w < HookAccessor_Weight c w \<Longrightarrow>
   execution_order w [a, b, c] = [b, a, c]"
  by (simp add: execution_order_def hook_less_def)

subsection \<open>The loop over the hooks\<close>

lemma exec_loop_append:
  "exec_loop cfg cb ev ws to ssa all i (xs @ ys) w =
     (case exec_loop cfg cb ev ws to ssa all i xs w of
        (sd, None, w1) \<Rightarrow> exec_loop cfg cb ev ws to ssa all (i + length xs) ys w1
      | (sd, Some e, w1) \<Rightarrow> (sd, Some e, w1))"
  by (induction xs arbitrary: i w) (auto split: prod.splits option.splits)

lemma hook_succeeds_exec_one:
  "hook_succeeds cfg cb ev ws to ssa h w = (fst (exec_one cfg cb ev ws to ssa all i h w) = None)"
  by (auto simp: hook_succeeds_def exec_one_def hook_apply_def kube_Create_def kube_GetWaiter_def
      waiter_WatchUntilReady_def emit_def Let_def split: prod.splits sum.splits option.splits)

lemma hooks_succeed_exec_loop:
  "hooks_succeed cfg cb ev ws to ssa all i hs w =
     (fst (snd (exec_loop cfg cb ev ws to ssa all i hs w)) = None)"
proof (induction hs arbitrary: i w)
  case Nil
  show ?case by simp
next
  case (Cons h hs)
  show ?case
  proof (cases "exec_one cfg cb ev ws to ssa all i h w")
    case (Pair r w1)
    then show ?thesis
      using Cons [of "Suc i" w1] hook_succeeds_exec_one [of cfg cb ev ws to ssa h w all i]
      by (cases r) (auto split: prod.splits)
  qed
qed

lemma exec_loop_success_shutdown:
  "fst (snd (exec_loop cfg cb ev ws to ssa all i hs w)) = None \<Longrightarrow>
   fst (exec_loop cfg cb ev ws to ssa all i hs w) = shutdown_on_success cb all"
  by (induction hs arbitrary: i w) (auto split: prod.splits option.splits)

lemma exec_loop_reaches:
  assumes "i < length hs"
    and "hooks_succeed cfg cb ev ws to ssa hs 0 (take i hs) w"
  shows "exec_loop cfg cb ev ws to ssa hs 0 (take i hs @ hs ! i # rest) w =
    (case exec_one cfg cb ev ws to ssa hs i (hs ! i)
            (world_after cfg cb ev ws to ssa hs (take i hs) w) of
       (Some (sd, e), w1) \<Rightarrow> (sd, Some e, w1)
     | (None, w1) \<Rightarrow> exec_loop cfg cb ev ws to ssa hs (Suc i) rest w1)"
proof -
  obtain sd0 r0 w1 where p: "exec_loop cfg cb ev ws to ssa hs 0 (take i hs) w = (sd0, r0, w1)"
    by (cases "exec_loop cfg cb ev ws to ssa hs 0 (take i hs) w") auto
  with assms have r0: "r0 = None" by (simp add: hooks_succeed_exec_loop)
  from assms have len: "min (length hs) i = i" by simp
  show ?thesis
    by (simp add: exec_loop_append p r0 len world_after_def)
qed

text \<open>
  When the loop body returns at hook \<open>i\<close>, after the hooks before it succeeded, that return
  is the result of \<^verbatim>\<open>execHookCore\<close>, and it is the result of the loop over the hooks up
  to \<open>i\<close> alone: nothing is done for the hooks after \<open>i\<close>.
\<close>

lemma exec_loop_returns_at:
  assumes "i < length hs"
    and "hooks_succeed cfg cb ev ws to ssa hs 0 (take i hs) w"
    and "exec_one cfg cb ev ws to ssa hs i (hs ! i)
           (world_after cfg cb ev ws to ssa hs (take i hs) w) = (Some (sd, e), w')"
  shows "exec_loop cfg cb ev ws to ssa hs 0 hs w = (sd, Some e, w')"
    and "exec_loop cfg cb ev ws to ssa hs 0 (take (Suc i) hs) w = (sd, Some e, w')"
proof -
  have split: "hs = take i hs @ hs ! i # drop (Suc i) hs"
    using assms(1) by (simp add: id_take_nth_drop)
  have "exec_loop cfg cb ev ws to ssa hs 0 (take i hs @ hs ! i # drop (Suc i) hs) w =
      (sd, Some e, w')"
    using exec_loop_reaches [OF assms(1,2), of "drop (Suc i) hs"] assms(3) by simp
  with split show "exec_loop cfg cb ev ws to ssa hs 0 hs w = (sd, Some e, w')"
    by simp
  have tk: "take (Suc i) hs = take i hs @ hs ! i # []"
    using assms(1) by (simp add: take_Suc_conv_app_nth)
  show "exec_loop cfg cb ev ws to ssa hs 0 (take (Suc i) hs) w = (sd, Some e, w')"
    using exec_loop_reaches [OF assms(1,2), of "[]"] assms(3) by (simp add: tk)
qed

subsection \<open>The cleanup after a failed wait\<close>

lemma delete_previous_spec:
  "j \<le> i \<Longrightarrow> i \<le> length hs \<Longrightarrow>
   delete_previous cb hs i j e w =
     (case spec_delete_each cb ''hook-succeeded'' (drop j (take i hs)) w of
        (Some ed, w1) \<Rightarrow> (Some ed, w1)
      | (None, w1) \<Rightarrow> (Some e, w1))"
proof (induction cb hs i j e w rule: delete_previous.induct)
  case (1 cb hs i j e w)
  show ?case
  proof (cases "j < i")
    case False
    with 1 show ?thesis
      by (subst delete_previous.simps) simp
  next
    case True
    with 1 have dr: "drop j (take i hs) = hs ! j # drop (Suc j) (take i hs)"
      by (metis Cons_nth_drop_Suc length_take min.absorb2 nth_take)
    show ?thesis
    proof (cases "deleteByPolicy cb (hs ! j) HookDeletePolicySucceeded w")
      case (Pair r w1)
      show ?thesis
      proof (cases r)
        case None
        with Pair True 1 show ?thesis
          by (simp add: delete_previous.simps [of cb hs i j] dr HookDeletePolicySucceeded_def)
      next
        case (Some ed)
        with Pair True show ?thesis
          by (simp add: delete_previous.simps [of cb hs i j] dr HookDeletePolicySucceeded_def)
      qed
    qed
  qed
qed

lemma shutdown_on_failure_spec:
  "i \<le> length hs \<Longrightarrow>
   shutdown_on_failure cb hs i h e = spec_cleanup_after_failure cb h (take i hs) e"
  by (rule ext)
     (simp add: shutdown_on_failure_def spec_cleanup_after_failure_def delete_previous_spec
        HookDeletePolicyFailed_def split: prod.splits)

lemma hook_apply_wait_failed:
  assumes "KubeClient_Create cfg (trace w) res ssa = None"
    and "KubeClient_GetWaiter cfg (trace w @ [Create res ssa]) ws = None"
    and "Waiter_WatchUntilReady cfg (trace w @ [Create res ssa, GetWaiter ws]) res to = Some e"
  shows "\<exists>w'. hook_apply cfg cb ev ws to ssa all i h res w =
           (Some (shutdown_on_failure cb all i h e, e), w')"
  using assms
  by (simp add: hook_apply_def kube_Create_def kube_GetWaiter_def waiter_WatchUntilReady_def
      emit_def Let_def split: prod.splits)

lemma exec_one_prepared:
  "hook_prepare cfg cb ev h w = (Inr res, w1) \<Longrightarrow>
   exec_one cfg cb ev ws to ssa all i h w = hook_apply cfg cb ev ws to ssa all i h res w1"
  by (simp add: exec_one_def)

text \<open>
  C1. Let the hooks before hook \<open>i\<close> of the execution order succeed, let hook \<open>i\<close> be
  prepared and created and the waiter obtained, and let the wait for its resources fail
  with \<open>e\<close>. Then \<^verbatim>\<open>execHookCore\<close> returns \<open>e\<close> and a cleanup that deletes hook \<open>i\<close> by
  "hook-failed", only logging an error of that, then deletes the hooks before \<open>i\<close> in their
  order by "hook-succeeded", and returns the first error of these deletions, else \<open>e\<close>. The
  outcome is that of the loop over the hooks up to \<open>i\<close>: the hooks after \<open>i\<close> are not run.
\<close>

theorem wait_failure_cleanup:
  fixes cfg :: configuration and cb :: hookExecutionCallbacks and w :: world
    and es :: "hook_accessor list" and i :: nat and ev ws :: string and to :: int and ssa :: bool
  defines "hs \<equiv> execution_order w es"
  defines "prep \<equiv> hook_prepare cfg cb ev (hs ! i) (world_after cfg cb ev ws to ssa hs (take i hs) w)"
  assumes "i < length hs"
    and "hooks_succeed cfg cb ev ws to ssa hs 0 (take i hs) w"
    and "fst prep = Inr res"
    and "KubeClient_Create cfg (trace (snd prep)) res ssa = None"
    and "KubeClient_GetWaiter cfg (trace (snd prep) @ [Create res ssa]) ws = None"
    and "Waiter_WatchUntilReady cfg (trace (snd prep) @ [Create res ssa, GetWaiter ws]) res to
           = Some e"
  shows "\<exists>w'. execHookCore cfg es ev ns ws to ssa cb w =
                 (spec_cleanup_after_failure cb (hs ! i) (take i hs) e, Some e, w')
              \<and> exec_loop cfg cb ev ws to ssa hs 0 (take (Suc i) hs) w =
                 (spec_cleanup_after_failure cb (hs ! i) (take i hs) e, Some e, w')"
proof -
  have pr: "hook_prepare cfg cb ev (hs ! i) (world_after cfg cb ev ws to ssa hs (take i hs) w) =
      (Inr res, snd prep)"
    using assms(5) by (cases prep) (simp add: prep_def)
  obtain w' where ap: "hook_apply cfg cb ev ws to ssa hs i (hs ! i) res (snd prep) =
      (Some (shutdown_on_failure cb hs i (hs ! i) e, e), w')"
    using hook_apply_wait_failed [OF assms(6-8)] by blast
  have one: "exec_one cfg cb ev ws to ssa hs i (hs ! i)
      (world_after cfg cb ev ws to ssa hs (take i hs) w) =
      (Some (spec_cleanup_after_failure cb (hs ! i) (take i hs) e, e), w')"
    using exec_one_prepared [OF pr] ap assms(3) by (simp add: shutdown_on_failure_spec)
  from exec_loop_returns_at [OF assms(3,4) one] show ?thesis
    by (simp add: execHookCore_def Let_def hs_def execution_order_def)
qed

theorem wait_failure_cleanup_witness:
  "hooks_succeed example_cfg example_callbacks ''pre-install'' ''watcher'' 300 False
     (execution_order (example_world_policies ''never-ready'') example_hooks) 0
     [V1HookAccessor 1] (example_world_policies ''never-ready'')
   \<and> fst (snd (execHookCore example_cfg example_hooks ''pre-install'' ''default'' ''watcher'' 300
        False example_callbacks (example_world_policies ''never-ready''))) =
       Some (ExternalError ''timed out'')
   \<and> fst (execHookCore example_cfg example_hooks ''pre-install'' ''default'' ''watcher'' 300
        False example_callbacks (example_world_policies ''never-ready'')) =
       spec_cleanup_after_failure example_callbacks (V1HookAccessor 0) [V1HookAccessor 1]
         (ExternalError ''timed out'')
   \<and> fst (fst (execHookCore example_cfg example_hooks ''pre-install'' ''default'' ''watcher'' 300
        False example_callbacks (example_world_policies ''never-ready''))
        (snd (snd (execHookCore example_cfg example_hooks ''pre-install'' ''default'' ''watcher''
           300 False example_callbacks (example_world_policies ''never-ready''))))) =
       Some (ExternalError ''timed out'')
   \<and> deletions (trace (snd (fst (execHookCore example_cfg example_hooks ''pre-install''
        ''default'' ''watcher'' 300 False example_callbacks (example_world_policies ''never-ready''))
        (snd (snd (execHookCore example_cfg example_hooks ''pre-install'' ''default'' ''watcher''
           300 False example_callbacks (example_world_policies ''never-ready''))))))) =
       [[''never-ready''], [''a-manifest'']]"
proof -
  let ?w = "example_world_policies ''never-ready''"
  let ?hs = "execution_order ?w example_hooks"
  let ?cb = example_callbacks
  let ?e = "ExternalError ''timed out''"
  let ?run = "execHookCore example_cfg example_hooks ''pre-install'' ''default'' ''watcher'' 300
        False ?cb ?w"
  let ?prep = "hook_prepare example_cfg ?cb ''pre-install'' (?hs ! 1)
     (world_after example_cfg ?cb ''pre-install'' ''watcher'' 300 False ?hs (take 1 ?hs) ?w)"
  let ?cleanup = "spec_cleanup_after_failure ?cb (V1HookAccessor 0) [V1HookAccessor 1] ?e"
  have hs: "?hs = [V1HookAccessor 1, V1HookAccessor 0, V1HookAccessor 2]"
    by (rule example_order_policies)
  have h1: "1 < length ?hs" by (simp add: hs)
  have h2: "hooks_succeed example_cfg ?cb ''pre-install'' ''watcher'' 300 False
      ?hs 0 (take 1 ?hs) ?w"
    unfolding hs by (simp add: hook_succeeds_def example_run_defs)
  have h3: "fst ?prep = Inr [''never-ready'']"
    unfolding hs by (simp add: world_after_def example_run_defs)
  have h4: "KubeClient_Create example_cfg (trace (snd ?prep)) [''never-ready''] False = None"
    by (simp add: example_cfg_def)
  have h5: "KubeClient_GetWaiter example_cfg
      (trace (snd ?prep) @ [Create [''never-ready''] False]) ''watcher'' = None"
    by (simp add: example_cfg_def)
  have h6: "Waiter_WatchUntilReady example_cfg
      (trace (snd ?prep) @ [Create [''never-ready''] False, GetWaiter ''watcher''])
      [''never-ready''] 300 = Some ?e"
    by (simp add: example_cfg_def)
  from wait_failure_cleanup [OF h1 h2 h3 h4 h5 h6, of "''default''"]
  have r: "fst ?run = ?cleanup" "fst (snd ?run) = Some ?e"
    by (auto simp: hs)
  have c: "fst (?cleanup (snd (snd ?run))) = Some ?e \<and>
      deletions (trace (snd (?cleanup (snd (snd ?run))))) = [[''never-ready''], [''a-manifest'']]"
    by (simp add: execHookCore_def Let_def
        example_order_policies [unfolded execution_order_def]
        example_run_defs spec_cleanup_after_failure_def deletions_def)
  from h2 r c show ?thesis by (simp add: hs)
qed

subsection \<open>The cleanup after a successful run\<close>

lemma cleanup_succeeded_stop: "cleanup_succeeded cb hs (- 1) w = (None, w)"
  by (subst cleanup_succeeded.simps) simp

lemma cleanup_succeeded_step:
  "cleanup_succeeded cb hs (int n) w =
     (case outputLogsByPolicy cb (hs ! n) HookOutputPolicySucceeded w of
        (r, w1) \<Rightarrow>
          (case deleteByPolicy cb (hs ! n) HookDeletePolicySucceeded
                  (case r of
                     Some e \<Rightarrow> log_Printf ''error outputting logs for hook success: %v'' e w1
                   | None \<Rightarrow> w1) of
             (Some e, w2) \<Rightarrow> (Some e, w2)
           | (None, w2) \<Rightarrow> cleanup_succeeded cb hs (int n - 1) w2))"
  by (subst cleanup_succeeded.simps) (simp add: Let_def)

lemma cleanup_succeeded_spec:
  "n \<le> length hs \<Longrightarrow>
   cleanup_succeeded cb hs (int n - 1) w = spec_cleanup_succeeded cb (rev (take n hs)) w"
proof (induction n arbitrary: w)
  case 0
  show ?case by (simp add: cleanup_succeeded_stop)
next
  case (Suc n)
  then have tk: "take (Suc n) hs = take n hs @ [hs ! n]"
    by (simp add: take_Suc_conv_app_nth)
  have ix: "int (Suc n) - 1 = int n" by simp
  from Suc have ih: "\<And>w. cleanup_succeeded cb hs (int n - 1) w =
      spec_cleanup_succeeded cb (rev (take n hs)) w"
    by simp
  show ?case
    unfolding ix tk
    by (simp add: cleanup_succeeded_step ih
        HookOutputPolicySucceeded_def HookDeletePolicySucceeded_def
        split: prod.splits option.splits)
qed

lemma shutdown_on_success_spec:
  "shutdown_on_success cb hs = spec_cleanup_succeeded cb (rev hs)"
  by (rule ext) (simp add: shutdown_on_success_def cleanup_succeeded_spec [of "length hs"])

text \<open>
  C3. When every hook of the execution order succeeds, \<^verbatim>\<open>execHookCore\<close> returns the nil
  error and a cleanup that walks the hooks in reverse order: for each it emits the
  "hook-succeeded" logs, only logging an error of that, and deletes the hook by
  "hook-succeeded"; the first deletion error ends the walk and is returned.
\<close>

theorem all_succeed_cleanup:
  fixes cfg :: configuration and cb :: hookExecutionCallbacks and w :: world
    and es :: "hook_accessor list" and ev ws :: string and to :: int and ssa :: bool
  defines "hs \<equiv> execution_order w es"
  assumes "hooks_succeed cfg cb ev ws to ssa hs 0 hs w"
  shows "execHookCore cfg es ev ns ws to ssa cb w =
           (spec_cleanup_succeeded cb (rev hs), None, world_after cfg cb ev ws to ssa hs hs w)"
proof -
  from assms(2) have n: "fst (snd (exec_loop cfg cb ev ws to ssa hs 0 hs w)) = None"
    by (simp add: hooks_succeed_exec_loop)
  from exec_loop_success_shutdown [OF n]
  have "fst (exec_loop cfg cb ev ws to ssa hs 0 hs w) = spec_cleanup_succeeded cb (rev hs)"
    by (simp add: shutdown_on_success_spec)
  with n show ?thesis
    by (simp add: execHookCore_def Let_def hs_def execution_order_def world_after_def
        prod_eq_iff)
qed

theorem all_succeed_cleanup_witness:
  "hooks_succeed example_cfg example_callbacks ''pre-install'' ''watcher'' 300 False
     [V1HookAccessor 1, V1HookAccessor 0, V1HookAccessor 2] 0
     [V1HookAccessor 1, V1HookAccessor 0, V1HookAccessor 2] (example_world_policies ''b-manifest'')
   \<and> fst (snd (execHookCore example_cfg example_hooks ''pre-install'' ''default'' ''watcher'' 300
            False example_callbacks (example_world_policies ''b-manifest''))) = None
   \<and> fst (execHookCore example_cfg example_hooks ''pre-install'' ''default'' ''watcher'' 300 False
            example_callbacks (example_world_policies ''b-manifest'')) =
       spec_cleanup_succeeded example_callbacks
         [V1HookAccessor 2, V1HookAccessor 0, V1HookAccessor 1]
   \<and> fst (fst (execHookCore example_cfg example_hooks ''pre-install'' ''default'' ''watcher'' 300
        False example_callbacks (example_world_policies ''b-manifest''))
        (snd (snd (execHookCore example_cfg example_hooks ''pre-install'' ''default'' ''watcher''
           300 False example_callbacks (example_world_policies ''b-manifest''))))) = None
   \<and> deletions (trace (snd (fst (execHookCore example_cfg example_hooks ''pre-install''
        ''default'' ''watcher'' 300 False example_callbacks (example_world_policies ''b-manifest''))
        (snd (snd (execHookCore example_cfg example_hooks ''pre-install'' ''default'' ''watcher''
           300 False example_callbacks (example_world_policies ''b-manifest''))))))) =
       [[''c-manifest''], [''b-manifest''], [''a-manifest'']]
   \<and> log_lines (trace (snd (fst (execHookCore example_cfg example_hooks ''pre-install''
        ''default'' ''watcher'' 300 False example_callbacks (example_world_policies ''b-manifest''))
        (snd (snd (execHookCore example_cfg example_hooks ''pre-install'' ''default'' ''watcher''
           300 False example_callbacks (example_world_policies ''b-manifest''))))))) =
       [''error outputting logs for hook success: %v'',
        ''error outputting logs for hook success: %v'',
        ''error outputting logs for hook success: %v'']"
proof -
  let ?w = "example_world_policies ''b-manifest''"
  let ?hs = "execution_order ?w example_hooks"
  let ?cb = example_callbacks
  let ?run = "execHookCore example_cfg example_hooks ''pre-install'' ''default'' ''watcher'' 300
        False ?cb ?w"
  let ?cleanup = "spec_cleanup_succeeded ?cb [V1HookAccessor 2, V1HookAccessor 0, V1HookAccessor 1]"
  have hs: "?hs = [V1HookAccessor 1, V1HookAccessor 0, V1HookAccessor 2]"
    by (rule example_order_policies)
  have h: "hooks_succeed example_cfg ?cb ''pre-install'' ''watcher'' 300 False ?hs 0 ?hs ?w"
    unfolding hs by (simp add: hook_succeeds_def example_run_defs)
  from all_succeed_cleanup [OF h, of "''default''"]
  have r: "fst ?run = ?cleanup" "fst (snd ?run) = None"
    by (simp_all add: hs)
  have c: "fst (?cleanup (snd (snd ?run))) = None \<and>
      deletions (trace (snd (?cleanup (snd (snd ?run))))) =
        [[''c-manifest''], [''b-manifest''], [''a-manifest'']] \<and>
      log_lines (trace (snd (?cleanup (snd (snd ?run))))) =
       [''error outputting logs for hook success: %v'',
        ''error outputting logs for hook success: %v'',
        ''error outputting logs for hook success: %v'']"
    by (simp add: execHookCore_def Let_def
        example_order_policies [unfolded execution_order_def]
        example_run_defs deletions_def log_lines_def)
  from h r c show ?thesis by (simp add: hs)
qed

subsection \<open>Failures before the wait\<close>

lemma hook_apply_create_failed:
  assumes "KubeClient_Create cfg (trace w) res ssa = Some e"
  shows "hook_apply cfg cb ev ws to ssa all i h res w =
     (Some (shutdownNoOp,
            Errorf ''warning: Hook %s %s failed: %w''
              [ev, HookAccessor_Path h
                     (HookAccessor_SetLastRunPhase h HookPhaseFailed
                        (HookAccessor_SetLastRunCompleted cfg h (emit (Create res ssa) w)))] e),
      HookAccessor_SetLastRunPhase h HookPhaseFailed
        (HookAccessor_SetLastRunCompleted cfg h (emit (Create res ssa) w)))"
  using assms by (simp add: hook_apply_def kube_Create_def Let_def)

lemma failed_after_create:
  "Phase (LastRun (heap (HookAccessor_SetLastRunPhase h HookPhaseFailed
       (HookAccessor_SetLastRunCompleted cfg h (emit c w))) (hook_ptr h))) = ''Failed''"
  "CompletedAt (LastRun (heap (HookAccessor_SetLastRunPhase h HookPhaseFailed
       (HookAccessor_SetLastRunCompleted cfg h (emit c w))) (hook_ptr h))) =
     Time_Now cfg (trace w @ [c])"
  "trace (HookAccessor_SetLastRunPhase h HookPhaseFailed
       (HookAccessor_SetLastRunCompleted cfg h (emit c w))) = trace w @ [c, TimeNow]"
  by (cases h; simp add: update_hook_def time_Now_def emit_def HookPhaseFailed_def)+

text \<open>
  C6. Let the hooks before hook \<open>i\<close> of the execution order succeed and hook \<open>i\<close> be prepared,
  and let the creation of its resources fail with \<open>e\<close>. Then \<^verbatim>\<open>execHookCore\<close> returns
  the error that wraps \<open>e\<close> with the event and the path of the hook, and the shutdown function
  that does nothing; the phase of the last run of the hook is "Failed" and its completion
  time is the reading of the clock after the creation; that reading is the last call issued,
  and the outcome is that of the loop over the hooks up to \<open>i\<close>.
\<close>

theorem create_failure_aborts:
  fixes cfg :: configuration and cb :: hookExecutionCallbacks and w :: world
    and es :: "hook_accessor list" and i :: nat and ev ws :: string and to :: int and ssa :: bool
  defines "hs \<equiv> execution_order w es"
  defines "prep \<equiv> hook_prepare cfg cb ev (hs ! i) (world_after cfg cb ev ws to ssa hs (take i hs) w)"
  assumes "i < length hs"
    and "hooks_succeed cfg cb ev ws to ssa hs 0 (take i hs) w"
    and "fst prep = Inr res"
    and "KubeClient_Create cfg (trace (snd prep)) res ssa = Some e"
  shows "\<exists>w'. execHookCore cfg es ev ns ws to ssa cb w =
                 (shutdownNoOp,
                  Some (Errorf ''warning: Hook %s %s failed: %w''
                          [ev, HookAccessor_Path (hs ! i) w'] e), w')
              \<and> exec_loop cfg cb ev ws to ssa hs 0 (take (Suc i) hs) w =
                 (shutdownNoOp,
                  Some (Errorf ''warning: Hook %s %s failed: %w''
                          [ev, HookAccessor_Path (hs ! i) w'] e), w')
              \<and> Phase (LastRun (heap w' (hook_ptr (hs ! i)))) = ''Failed''
              \<and> CompletedAt (LastRun (heap w' (hook_ptr (hs ! i)))) =
                  Time_Now cfg (trace (snd prep) @ [Create res ssa])
              \<and> trace w' = trace (snd prep) @ [Create res ssa, TimeNow]
              \<and> (\<forall>w0. shutdownNoOp w0 = (None, w0))"
proof -
  let ?w' = "HookAccessor_SetLastRunPhase (hs ! i) HookPhaseFailed
      (HookAccessor_SetLastRunCompleted cfg (hs ! i) (emit (Create res ssa) (snd prep)))"
  have pr: "hook_prepare cfg cb ev (hs ! i) (world_after cfg cb ev ws to ssa hs (take i hs) w) =
      (Inr res, snd prep)"
    using assms(5) by (cases prep) (simp add: prep_def)
  have one: "exec_one cfg cb ev ws to ssa hs i (hs ! i)
      (world_after cfg cb ev ws to ssa hs (take i hs) w) =
      (Some (shutdownNoOp,
             Errorf ''warning: Hook %s %s failed: %w'' [ev, HookAccessor_Path (hs ! i) ?w'] e),
       ?w')"
    using exec_one_prepared [OF pr] hook_apply_create_failed [OF assms(6)] by simp
  from exec_loop_returns_at [OF assms(3,4) one] failed_after_create [of "hs ! i" cfg _ "snd prep"]
  show ?thesis
    by (intro exI [of _ ?w'])
       (simp add: execHookCore_def Let_def hs_def execution_order_def shutdownNoOp_def)
qed

theorem create_failure_aborts_witness:
  "hooks_succeed example_cfg example_callbacks ''pre-install'' ''watcher'' 300 False
     (execution_order (example_world ''rejected'') example_hooks) 0
     [V1HookAccessor 1] (example_world ''rejected'')
   \<and> (\<exists>w'. execHookCore example_cfg example_hooks ''pre-install'' ''default'' ''watcher'' 300 False
              example_callbacks (example_world ''rejected'') =
            (shutdownNoOp,
             Some (Errorf ''warning: Hook %s %s failed: %w'' [''pre-install'', ''b'']
                     (ExternalError ''rejected'')), w')
          \<and> Phase (LastRun (heap w' 0)) = ''Failed'')"
proof -
  let ?w = "example_world ''rejected''"
  let ?hs = "execution_order ?w example_hooks"
  let ?prep = "hook_prepare example_cfg example_callbacks ''pre-install'' (?hs ! 1)
     (world_after example_cfg example_callbacks ''pre-install'' ''watcher'' 300 False ?hs
        (take 1 ?hs) ?w)"
  have hs: "?hs = [V1HookAccessor 1, V1HookAccessor 0, V1HookAccessor 2]"
    by (rule example_order)
  have h1: "1 < length ?hs" by (simp add: hs)
  have h2: "hooks_succeed example_cfg example_callbacks ''pre-install'' ''watcher'' 300 False
      ?hs 0 (take 1 ?hs) ?w"
    unfolding hs by (simp add: hook_succeeds_def example_defs engine_defs)
  have h3: "fst ?prep = Inr [''rejected'']"
    unfolding hs by (simp add: world_after_def example_defs engine_defs)
  have h4: "KubeClient_Create example_cfg (trace (snd ?prep)) [''rejected''] False =
      Some (ExternalError ''rejected'')"
    by (simp add: example_cfg_def)
  from create_failure_aborts [OF h1 h2 h3 h4, of "''default''"]
  obtain w' where r: "execHookCore example_cfg example_hooks ''pre-install'' ''default''
        ''watcher'' 300 False example_callbacks ?w =
      (shutdownNoOp,
       Some (Errorf ''warning: Hook %s %s failed: %w''
               [''pre-install'', HookAccessor_Path (?hs ! 1) w'] (ExternalError ''rejected'')), w')"
    and p: "Phase (LastRun (heap w' (hook_ptr (?hs ! 1)))) = ''Failed''"
    by blast
  have "execHookCore example_cfg example_hooks ''pre-install'' ''default''
        ''watcher'' 300 False example_callbacks ?w =
      (shutdownNoOp,
       Some (Errorf ''warning: Hook %s %s failed: %w'' [''pre-install'', ''b'']
               (ExternalError ''rejected'')),
       snd (snd (execHookCore example_cfg example_hooks ''pre-install'' ''default''
        ''watcher'' 300 False example_callbacks ?w)))"
    by (simp add: execHookCore_def Let_def example_order [unfolded execution_order_def]
        example_defs engine_defs prod_eq_iff)
  with r p h2 show ?thesis by (auto simp: hs)
qed









subsection \<open>The calls that build the hooks to create them\<close>

lemma validated_builds_append [simp]:
  "validated_builds (xs @ ys) = validated_builds xs @ validated_builds ys"
  by (simp add: validated_builds_def)

lemma validated_builds_simps [simp]:
  "validated_builds [] = []"
  "validated_builds (Build m v # tr) = (if v then m # validated_builds tr else validated_builds tr)"
  "validated_builds (Create rs ssa # tr) = validated_builds tr"
  "validated_builds (Delete rs # tr) = validated_builds tr"
  "validated_builds (GetWaiter s # tr) = validated_builds tr"
  "validated_builds (WatchUntilReady rs to # tr) = validated_builds tr"
  "validated_builds (WaitForDelete rs to # tr) = validated_builds tr"
  "validated_builds (GetPodList s opts # tr) = validated_builds tr"
  "validated_builds (OutputContainerLogsForPodList pods s # tr) = validated_builds tr"
  "validated_builds (RecordRelease hks # tr) = validated_builds tr"
  "validated_builds (ReleasesUpdate hks # tr) = validated_builds tr"
  "validated_builds (TimeNow # tr) = validated_builds tr"
  "validated_builds (LogPrintf fmt e # tr) = validated_builds tr"
  by (simp_all add: validated_builds_def)

lemma deleteHookByPolicyGeneric_quiet:
  "deleteHookByPolicyGeneric cfg h policy ws to w = (r, w') \<Longrightarrow>
   heap w' = heap w \<and> validated_builds (trace w') = validated_builds (trace w)"
  by (auto simp: deleteHookByPolicyGeneric_def kube_Build_def kube_Delete_def kube_GetWaiter_def
      waiter_WaitForDelete_def emit_def split: sum.splits option.splits if_splits)

lemma outputLogsByPolicyGeneric_quiet:
  "outputLogsByPolicyGeneric cfg h ns policy w = (r, w') \<Longrightarrow>
   heap w' = heap w \<and> validated_builds (trace w') = validated_builds (trace w)"
  by (auto simp: outputLogsByPolicyGeneric_def outputContainerLogsForListOptions_def
      kube_GetPodList_def kube_OutputContainerLogsForPodList_def emit_def
      split: sum.splits option.splits if_splits)

lemma entry_point_callbacks_quiet:
  assumes "cb = callbacks_v1 cfg rl ws to \<or> cb = callbacks_v3 cfg rl ws to"
  shows "deleteByPolicy cb h policy w = (r, w') \<Longrightarrow>
           heap w' = heap w \<and> validated_builds (trace w') = validated_builds (trace w)"
    and "outputLogsByPolicy cb h policy w = (r, w') \<Longrightarrow>
           heap w' = heap w \<and> validated_builds (trace w') = validated_builds (trace w)"
    and "heap (recordRelease cb w) = heap w \<and>
           validated_builds (trace (recordRelease cb w)) = validated_builds (trace w)"
  using assms deleteHookByPolicyGeneric_quiet [of cfg h policy ws to w r w']
    outputLogsByPolicyGeneric_quiet [of cfg h "Namespace rl" policy w r w']
  by (auto simp: callbacks_v1_def callbacks_v3_def emit_def)

lemma Manifest_heap_cong:
  "\<forall>p. Manifest (heap w' p) = Manifest (heap w p) \<Longrightarrow>
   HookAccessor_Manifest a w' = HookAccessor_Manifest a w"
  by (cases a) simp_all

lemma accessor_updates_quiet:
  "Manifest (heap (HookAccessor_SetDefaultDeletePolicy h w) p) = Manifest (heap w p)"
  "trace (HookAccessor_SetDefaultDeletePolicy h w) = trace w"
  "Manifest (heap (HookAccessor_SetLastRunPhase h ph w) p) = Manifest (heap w p)"
  "trace (HookAccessor_SetLastRunPhase h ph w) = trace w"
  "Manifest (heap (HookAccessor_SetLastRunStarted cfg h w) p) = Manifest (heap w p)"
  "trace (HookAccessor_SetLastRunStarted cfg h w) = trace w @ [TimeNow]"
  "Manifest (heap (HookAccessor_SetLastRunCompleted cfg h w) p) = Manifest (heap w p)"
  "trace (HookAccessor_SetLastRunCompleted cfg h w) = trace w @ [TimeNow]"
  by (cases h; simp add: update_hook_def set_default_delete_policy_def time_Now_def emit_def)+

lemma hook_prepare_builds:
  assumes cb: "cb = callbacks_v1 cfg rl ws to \<or> cb = callbacks_v3 cfg rl ws to"
    and run: "hook_prepare cfg cb ev h w = (r, w')"
  shows "(\<forall>p. Manifest (heap w' p) = Manifest (heap w p)) \<and>
         (case r of
            Inl ret \<Rightarrow> validated_builds (trace w') = validated_builds (trace w) \<or>
                       validated_builds (trace w') =
                         validated_builds (trace w) @ [HookAccessor_Manifest h w]
          | Inr res \<Rightarrow> validated_builds (trace w') =
                         validated_builds (trace w) @ [HookAccessor_Manifest h w])"
proof -
  obtain r1 w1 where d: "deleteByPolicy cb h HookDeletePolicyBeforeCreation
      (HookAccessor_SetDefaultDeletePolicy h w) = (r1, w1)"
    by (cases "deleteByPolicy cb h HookDeletePolicyBeforeCreation
      (HookAccessor_SetDefaultDeletePolicy h w)") auto
  from entry_point_callbacks_quiet(1) [OF cb d]
  have h1: "\<forall>p. Manifest (heap w1 p) = Manifest (heap w p)"
    and t1: "validated_builds (trace w1) = validated_builds (trace w)"
    by (simp_all add: accessor_updates_quiet)
  have m1: "HookAccessor_Manifest h w1 = HookAccessor_Manifest h w"
    by (rule Manifest_heap_cong [OF h1])
  show ?thesis
  proof (cases r1)
    case (Some e)
    with d run h1 t1 show ?thesis by (auto simp: hook_prepare_def)
  next
    case None
    show ?thesis
    proof (cases "KubeClient_Build cfg (trace w1) (HookAccessor_Manifest h w) True")
      case (Inl e)
      with None d run h1 t1 m1 show ?thesis
        by (auto simp: hook_prepare_def kube_Build_def emit_def)
    next
      case (Inr res)
      with None d run h1 t1 m1 entry_point_callbacks_quiet(3) [OF cb] show ?thesis
        by (auto simp: hook_prepare_def kube_Build_def emit_def accessor_updates_quiet)
    qed
  qed
qed

lemma hook_apply_builds:
  assumes cb: "cb = callbacks_v1 cfg rl ws to \<or> cb = callbacks_v3 cfg rl ws to"
    and run: "hook_apply cfg cb ev ws to ssa all i h res w = (r, w')"
  shows "(\<forall>p. Manifest (heap w' p) = Manifest (heap w p)) \<and>
         validated_builds (trace w') = validated_builds (trace w)"
proof -
  obtain lr w5 where o: "outputLogsByPolicy cb h HookOutputPolicyFailed
      (HookAccessor_SetLastRunPhase h HookPhaseFailed
         (HookAccessor_SetLastRunCompleted cfg h
            (emit (WatchUntilReady res to) (emit (GetWaiter ws) (emit (Create res ssa) w)))))
      = (lr, w5)"
    by (cases "outputLogsByPolicy cb h HookOutputPolicyFailed
      (HookAccessor_SetLastRunPhase h HookPhaseFailed
         (HookAccessor_SetLastRunCompleted cfg h
            (emit (WatchUntilReady res to) (emit (GetWaiter ws) (emit (Create res ssa) w)))))")
       auto
  from entry_point_callbacks_quiet(2) [OF cb o]
  have "(\<forall>p. Manifest (heap w5 p) = Manifest (heap w p)) \<and>
      validated_builds (trace w5) = validated_builds (trace w)"
    by (simp add: accessor_updates_quiet emit_def)
  with run o show ?thesis
    by (auto simp: hook_apply_def kube_Create_def kube_GetWaiter_def waiter_WatchUntilReady_def
        Let_def accessor_updates_quiet emit_def log_Printf_def
        split: option.splits)
qed

lemma exec_one_builds:
  assumes cb: "cb = callbacks_v1 cfg rl ws to \<or> cb = callbacks_v3 cfg rl ws to"
    and run: "exec_one cfg cb ev ws to ssa all i h w = (r, w')"
  shows "(\<forall>p. Manifest (heap w' p) = Manifest (heap w p)) \<and>
         (case r of
            Some ret \<Rightarrow> validated_builds (trace w') = validated_builds (trace w) \<or>
                        validated_builds (trace w') =
                          validated_builds (trace w) @ [HookAccessor_Manifest h w]
          | None \<Rightarrow> validated_builds (trace w') =
                      validated_builds (trace w) @ [HookAccessor_Manifest h w])"
proof (cases "hook_prepare cfg cb ev h w")
  case (Pair r1 w1)
  show ?thesis
  proof (cases r1)
    case (Inl ret)
    with Pair run hook_prepare_builds [OF cb Pair] show ?thesis
      by (auto simp: exec_one_def)
  next
    case (Inr res)
    with Pair run have ap: "hook_apply cfg cb ev ws to ssa all i h res w1 = (r, w')"
      by (simp add: exec_one_def)
    from hook_prepare_builds [OF cb Pair] hook_apply_builds [OF cb ap] Inr
    show ?thesis by (cases r) auto
  qed
qed

lemma exec_loop_builds:
  assumes cb: "cb = callbacks_v1 cfg rl ws to \<or> cb = callbacks_v3 cfg rl ws to"
  shows "exec_loop cfg cb ev ws to ssa all i hs w = (sd, r, w') \<Longrightarrow>
     \<exists>k\<le>length hs.
        validated_builds (trace w') =
          validated_builds (trace w) @ map (\<lambda>a. HookAccessor_Manifest a w) (take k hs) \<and>
        (r = None \<longrightarrow> k = length hs)"
proof (induction hs arbitrary: i w)
  case Nil
  then show ?case by simp
next
  case (Cons h hs)
  obtain r1 w1 where one: "exec_one cfg cb ev ws to ssa all i h w = (r1, w1)"
    by (cases "exec_one cfg cb ev ws to ssa all i h w") auto
  from exec_one_builds [OF cb one]
  have mf: "\<forall>p. Manifest (heap w1 p) = Manifest (heap w p)"
    and vb: "case r1 of
            Some ret \<Rightarrow> validated_builds (trace w1) = validated_builds (trace w) \<or>
                        validated_builds (trace w1) =
                          validated_builds (trace w) @ [HookAccessor_Manifest h w]
          | None \<Rightarrow> validated_builds (trace w1) =
                      validated_builds (trace w) @ [HookAccessor_Manifest h w]"
    by simp_all
  show ?case
  proof (cases r1)
    case (Some ret)
    with one Cons.prems have w': "w' = w1" and r: "r \<noteq> None"
      by (auto split: prod.splits)
    from vb Some consider
        "validated_builds (trace w1) = validated_builds (trace w)"
      | "validated_builds (trace w1) = validated_builds (trace w) @ [HookAccessor_Manifest h w]"
      by auto
    then show ?thesis
    proof cases
      case 1
      with w' r show ?thesis by (intro exI [of _ 0]) auto
    next
      case 2
      with w' r show ?thesis by (intro exI [of _ 1]) auto
    qed
  next
    case None
    with one Cons.prems
    have rest: "exec_loop cfg cb ev ws to ssa all (Suc i) hs w1 = (sd, r, w')"
      by simp
    from Cons.IH [OF rest] obtain k where k: "k \<le> length hs"
      and t: "validated_builds (trace w') =
          validated_builds (trace w1) @ map (\<lambda>a. HookAccessor_Manifest a w1) (take k hs)"
      and n: "r = None \<longrightarrow> k = length hs"
      by blast
    have "map (\<lambda>a. HookAccessor_Manifest a w1) (take k hs) =
        map (\<lambda>a. HookAccessor_Manifest a w) (take k hs)"
      using Manifest_heap_cong [OF mf] by simp
    with k t n vb None show ?thesis
      by (intro exI [of _ "Suc k"]) simp
  qed
qed

text \<open>
  C2. The execution order of the hooks given to \<^verbatim>\<open>execHookCore\<close> is a rearrangement
  of them, ascending in weight and, at equal weight, in name; hooks of equal weight and
  equal name keep the order they had; a hook \<open>a\<close>, a hook \<open>b\<close> of the same weight and smaller
  name, and a hook \<open>c\<close> of greater weight come in the order \<open>b\<close>, \<open>a\<close>, \<open>c\<close>; and hooks given
  in ascending order of weight and name stay in the order given. \<^verbatim>\<open>execHookCore\<close> runs
  its loop over the hooks in that order: with the callbacks of either entry point, the
  manifests it builds for creation are those of the first hooks of the execution order, in
  that order, and those of all the hooks when it returns the nil error.
\<close>

theorem execution_order_stable_sorted:
  fixes cfg :: configuration and cb :: hookExecutionCallbacks and w :: world
    and es :: "hook_accessor list" and ev ns ws :: string and to :: int and ssa :: bool
    and rl :: release
  defines "hs \<equiv> execution_order w es"
  defines "run \<equiv> execHookCore cfg es ev ns ws to ssa cb w"
  shows "mset hs = mset es
   \<and> sorted_wrt (weight_name_le w) hs
   \<and> (\<forall>wt nm.
        filter (\<lambda>a. HookAccessor_Weight a w = wt \<and> HookAccessor_Name a w = nm) hs =
        filter (\<lambda>a. HookAccessor_Weight a w = wt \<and> HookAccessor_Name a w = nm) es)
   \<and> (\<forall>a b c.
        HookAccessor_Weight a w = HookAccessor_Weight b w \<and>
        HookAccessor_Name b w < HookAccessor_Name a w \<and>
        HookAccessor_Weight a w < HookAccessor_Weight c w \<longrightarrow>
        execution_order w [a, b, c] = [b, a, c])
   \<and> (sorted_wrt (weight_name_le w) es \<longrightarrow> hs = es)
   \<and> run = exec_loop cfg cb ev ws to ssa hs 0 hs w
   \<and> (cb = callbacks_v1 cfg rl ws to \<or> cb = callbacks_v3 cfg rl ws to \<longrightarrow>
        (\<exists>k\<le>length hs.
           validated_builds (trace (snd (snd run))) =
             validated_builds (trace w) @ map (\<lambda>a. HookAccessor_Manifest a w) (take k hs) \<and>
           (fst (snd run) = None \<longrightarrow> k = length hs)))"
proof -
  have run: "run = exec_loop cfg cb ev ws to ssa hs 0 hs w"
    by (simp add: run_def hs_def execHookCore_def execution_order_def Let_def)
  have "mset hs = mset es"
    by (simp add: hs_def execution_order_sort_key)
  moreover have "sorted_wrt (weight_name_le w) hs"
    by (simp add: hs_def sorted_wrt_weight_name execution_order_sort_key)
  moreover have "sorted_wrt (weight_name_le w) es \<longrightarrow> hs = es"
    by (simp add: hs_def sorted_wrt_weight_name execution_order_sort_key sort_key_id_if_sorted)
  moreover have "\<exists>k\<le>length hs.
           validated_builds (trace (snd (snd run))) =
             validated_builds (trace w) @ map (\<lambda>a. HookAccessor_Manifest a w) (take k hs) \<and>
           (fst (snd run) = None \<longrightarrow> k = length hs)"
    if cb: "cb = callbacks_v1 cfg rl ws to \<or> cb = callbacks_v3 cfg rl ws to"
  proof -
    obtain sd r w' where l: "exec_loop cfg cb ev ws to ssa hs 0 hs w = (sd, r, w')"
      by (cases "exec_loop cfg cb ev ws to ssa hs 0 hs w") auto
    from exec_loop_builds [OF cb l] l show ?thesis
      by (simp add: run)
  qed
  ultimately show ?thesis
    using run execution_order_stable [of w _ _ es] execution_order_three [of _ w]
    unfolding hs_def by blast
qed

theorem execution_order_stable_sorted_witness:
  "HookAccessor_Weight (V1HookAccessor 0) (example_world ''b-manifest'') =
     HookAccessor_Weight (V1HookAccessor 1) (example_world ''b-manifest'')
   \<and> HookAccessor_Name (V1HookAccessor 1) (example_world ''b-manifest'') <
     HookAccessor_Name (V1HookAccessor 0) (example_world ''b-manifest'')
   \<and> HookAccessor_Weight (V1HookAccessor 0) (example_world ''b-manifest'') <
     HookAccessor_Weight (V1HookAccessor 2) (example_world ''b-manifest'')
   \<and> execution_order (example_world ''b-manifest'')
       [V1HookAccessor 0, V1HookAccessor 1, V1HookAccessor 2] =
       [V1HookAccessor 1, V1HookAccessor 0, V1HookAccessor 2]
   \<and> sorted_wrt (weight_name_le (example_world ''b-manifest''))
       [V1HookAccessor 1, V1HookAccessor 0, V1HookAccessor 2]
   \<and> execution_order (example_world ''b-manifest'')
       [V1HookAccessor 1, V1HookAccessor 0, V1HookAccessor 2] =
       [V1HookAccessor 1, V1HookAccessor 0, V1HookAccessor 2]
   \<and> validated_builds (trace (snd (snd
       (execHookCore example_cfg example_hooks ''pre-install'' ''default'' ''watcher'' 300 False
          example_callbacks (example_world ''b-manifest''))))) =
       [''a-manifest'', ''b-manifest'', ''c-manifest'']"
proof -
  let ?w = "example_world ''b-manifest''"
  let ?es = "[V1HookAccessor 0, V1HookAccessor 1, V1HookAccessor 2]"
  let ?run = "execHookCore example_cfg ?es ''pre-install'' ''default'' ''watcher'' 300
      False example_callbacks ?w"
  have h1: "HookAccessor_Weight (V1HookAccessor 0) ?w = HookAccessor_Weight (V1HookAccessor 1) ?w"
    and h2: "HookAccessor_Name (V1HookAccessor 1) ?w < HookAccessor_Name (V1HookAccessor 0) ?w"
    and h3: "HookAccessor_Weight (V1HookAccessor 0) ?w < HookAccessor_Weight (V1HookAccessor 2) ?w"
    by (simp_all add: example_defs)
  have s: "sorted_wrt (weight_name_le ?w) [V1HookAccessor 1, V1HookAccessor 0, V1HookAccessor 2]"
    by (simp add: weight_name_le_def example_defs)
  have cb: "example_callbacks = callbacks_v1 example_cfg example_release ''watcher'' 300 \<or>
      example_callbacks = callbacks_v3 example_cfg example_release ''watcher'' 300"
    by (simp add: example_callbacks_def)
  have ok: "fst (snd ?run) = None"
    by (simp add: execHookCore_def Let_def
        example_order [unfolded execution_order_def example_hooks_def]
        example_defs engine_defs)
  note inst = execution_order_stable_sorted
         [where w = ?w and es = "[V1HookAccessor 0, V1HookAccessor 1, V1HookAccessor 2]"
            and cb = example_callbacks and cfg = example_cfg and rl = example_release
            and ws = "''watcher''" and to = 300 and ev = "''pre-install''"
            and ns = "''default''" and ssa = False]
  from inst h1 h2 h3
  have a: "execution_order ?w [V1HookAccessor 0, V1HookAccessor 1, V1HookAccessor 2] =
       [V1HookAccessor 1, V1HookAccessor 0, V1HookAccessor 2]"
    by blast
  from execution_order_stable_sorted
         [where w = ?w and es = "[V1HookAccessor 1, V1HookAccessor 0, V1HookAccessor 2]"] s
  have b: "execution_order ?w [V1HookAccessor 1, V1HookAccessor 0, V1HookAccessor 2] =
       [V1HookAccessor 1, V1HookAccessor 0, V1HookAccessor 2]"
    by blast
  from inst have "example_callbacks = callbacks_v1 example_cfg example_release ''watcher'' 300 \<or>
      example_callbacks = callbacks_v3 example_cfg example_release ''watcher'' 300 \<longrightarrow>
      (\<exists>k\<le>length (execution_order ?w ?es).
          validated_builds (trace (snd (snd ?run))) =
            validated_builds (trace ?w) @
            map (\<lambda>a. HookAccessor_Manifest a ?w) (take k (execution_order ?w ?es)) \<and>
          (fst (snd ?run) = None \<longrightarrow> k = length (execution_order ?w ?es)))"
    by (elim conjE)
  from this cb have "\<exists>k\<le>length (execution_order ?w ?es).
          validated_builds (trace (snd (snd ?run))) =
            validated_builds (trace ?w) @
            map (\<lambda>a. HookAccessor_Manifest a ?w) (take k (execution_order ?w ?es)) \<and>
          (fst (snd ?run) = None \<longrightarrow> k = length (execution_order ?w ?es))"
    by (rule mp)
  then have c: "validated_builds (trace (snd (snd ?run))) =
      [''a-manifest'', ''b-manifest'', ''c-manifest'']"
    unfolding ok a by (auto simp: example_world_def example_hook_def)
  from h1 h2 h3 a s b c show ?thesis by (simp add: example_hooks_def)
qed

subsection \<open>The namespace of a hook\<close>

text \<open>
  C9. The namespace is read from the manifest of the hook itself: when the manifest decodes
  with a namespace that is not empty, that namespace is the result; when it decodes with no
  namespace, the namespace of the release is; when it does not decode, the result is an error
  that wraps the decoding error with the path of the hook.
\<close>

theorem deriveNamespaceGeneric_cases:
  "(YamlUnmarshal cfg (HookAccessor_Manifest h w) = Inr ns \<and> ns \<noteq> [] \<longrightarrow>
      deriveNamespaceGeneric cfg h namespace w = Inr ns)
   \<and> (YamlUnmarshal cfg (HookAccessor_Manifest h w) = Inr [] \<longrightarrow>
      deriveNamespaceGeneric cfg h namespace w = Inr namespace)
   \<and> (YamlUnmarshal cfg (HookAccessor_Manifest h w) = Inl e \<longrightarrow>
      deriveNamespaceGeneric cfg h namespace w =
        Inl (Errorf
          ''unable to parse metadata.namespace from kubernetes manifest for output logs hook %s: %w''
          [HookAccessor_Path h w] e))"
  by (simp add: deriveNamespaceGeneric_def)

theorem deriveNamespaceGeneric_cases_witness:
  "YamlUnmarshal example_cfg (HookAccessor_Manifest (V1HookAccessor 0) (example_world ''in-foo''))
     = Inr ''foo''
   \<and> deriveNamespaceGeneric example_cfg (V1HookAccessor 0) ''default'' (example_world ''in-foo'')
     = Inr ''foo''
   \<and> YamlUnmarshal example_cfg (HookAccessor_Manifest (V1HookAccessor 1) (example_world ''in-foo''))
     = Inr []
   \<and> deriveNamespaceGeneric example_cfg (V1HookAccessor 1) ''default'' (example_world ''in-foo'')
     = Inr ''default''
   \<and> YamlUnmarshal example_cfg (HookAccessor_Manifest (V1HookAccessor 0) (example_world ''invalid''))
     = Inl (ExternalError ''not yaml'')
   \<and> deriveNamespaceGeneric example_cfg (V1HookAccessor 0) ''default'' (example_world ''invalid'')
     = Inl (Errorf
          ''unable to parse metadata.namespace from kubernetes manifest for output logs hook %s: %w''
          [''b''] (ExternalError ''not yaml''))"
proof -
  have h1: "YamlUnmarshal example_cfg
      (HookAccessor_Manifest (V1HookAccessor 0) (example_world ''in-foo'')) = Inr ''foo''"
    and h2: "YamlUnmarshal example_cfg
      (HookAccessor_Manifest (V1HookAccessor 1) (example_world ''in-foo'')) = Inr []"
    and h3: "YamlUnmarshal example_cfg
      (HookAccessor_Manifest (V1HookAccessor 0) (example_world ''invalid''))
      = Inl (ExternalError ''not yaml'')"
    and p: "HookAccessor_Path (V1HookAccessor 0) (example_world ''invalid'') = ''b''"
    by (simp_all add: example_defs)
  from h1 deriveNamespaceGeneric_cases
         [of example_cfg "V1HookAccessor 0" "example_world ''in-foo''" "''foo''" "''default''"]
  have c1: "deriveNamespaceGeneric example_cfg (V1HookAccessor 0) ''default''
      (example_world ''in-foo'') = Inr ''foo''"
    by simp
  from h2 deriveNamespaceGeneric_cases
         [of example_cfg "V1HookAccessor 1" "example_world ''in-foo''" _ "''default''"]
  have c2: "deriveNamespaceGeneric example_cfg (V1HookAccessor 1) ''default''
      (example_world ''in-foo'') = Inr ''default''"
    by simp
  from h3 p deriveNamespaceGeneric_cases
         [of example_cfg "V1HookAccessor 0" "example_world ''invalid''" _ "''default''"
            "ExternalError ''not yaml''"]
  have c3: "deriveNamespaceGeneric example_cfg (V1HookAccessor 0) ''default''
      (example_world ''invalid'') = Inl (Errorf
          ''unable to parse metadata.namespace from kubernetes manifest for output logs hook %s: %w''
          [''b''] (ExternalError ''not yaml''))"
    by simp
  from h1 h2 h3 c1 c2 c3 show ?thesis by blast
qed

subsection \<open>The selection of the hooks of an event\<close>

lemma append_matching_occurrences:
  "append_matching acc evs ev = replicate (count_list evs ev) acc"
  by (induction evs) simp_all

lemma select_hooks_occurrences:
  "select_hooks new_acc hs ev w =
     concat (map (\<lambda>h. replicate (count_list (Events (heap w h)) ev) (new_acc h)) hs)"
  by (induction hs) (simp_all add: append_matching_occurrences)

lemma has_string_member: "has_string xs s = (s \<in> set xs)"
  by (induction xs) auto

lemma append_matching_distinct:
  "distinct evs \<Longrightarrow> append_matching acc evs ev = (if ev \<in> set evs then [acc] else [])"
  by (induction evs) auto

text \<open>
  When no hook names an event twice, the hooks selected are the hooks bound to the event,
  each once, in the order of the release; \<^verbatim>\<open>HasEvent\<close> is that test of membership.
\<close>

lemma select_hooks_distinct_events:
  "(\<And>h. h \<in> set hs \<Longrightarrow> distinct (Events (heap w h))) \<Longrightarrow>
   select_hooks V1HookAccessor hs ev w =
     map V1HookAccessor (filter (\<lambda>h. HookAccessor_HasEvent (V1HookAccessor h) ev w) hs)"
  by (induction hs) (simp_all add: append_matching_distinct has_string_member)

text \<open>
  C10. A hook whose event list names the event twice is selected twice, by either entry
  point, and its resources are created twice in one execution.
\<close>

theorem duplicate_event_runs_hook_twice:
  "select_hooks V1HookAccessor (Hooks duplicate_event_release) ''pre-install''
     duplicate_event_world = [V1HookAccessor 0, V1HookAccessor 0]
   \<and> select_hooks V2HookAccessor (Hooks duplicate_event_release) ''pre-install''
     duplicate_event_world = [V2HookAccessor 0, V2HookAccessor 0]
   \<and> filter is_Create
       (trace (snd (snd (execHookWithDelayedShutdown example_cfg duplicate_event_release
          ''pre-install'' ''watcher'' 300 False duplicate_event_world)))) =
       [Create [''twice-manifest''] False, Create [''twice-manifest''] False]
   \<and> filter is_Create
       (trace (snd (snd (execHookWithDelayedShutdownV3 example_cfg duplicate_event_release
          ''pre-install'' ''watcher'' 300 False duplicate_event_world)))) =
       [Create [''twice-manifest''] False, Create [''twice-manifest''] False]"
  by (simp add: execHookWithDelayedShutdown_def execHookWithDelayedShutdownV3_def
      execHookCore_def callbacks_v3_def
      duplicate_event_release_def duplicate_event_world_def is_Create_def
      example_defs engine_defs)

subsection \<open>The installation batches\<close>

lemma example_edges: "graph_edges example_graph = [(''nginx'', ''bar''), (''rabbitmq'', ''bar'')]"
  by (simp add: graph_edges_def example_graph_def subcharts_def)

lemma example_subcharts:
  "subcharts example_graph = [''nginx'', ''rabbitmq'', ''bar'', ''orphaned'']"
  by (simp add: subcharts_def example_graph_def)

lemma example_isolated:
  "isolated example_graph n = (n \<noteq> ''nginx'' \<and> n \<noteq> ''rabbitmq'' \<and> n \<noteq> ''bar'')"
  by (auto simp: isolated_def example_edges)

lemma example_peel:
  "peel example_graph [] [''nginx'', ''rabbitmq'', ''bar''] = [[''nginx'', ''rabbitmq''], [''bar'']]"
  by (simp add: peel.simps predecessors_placed_def example_edges Let_def)

lemma example_batches:
  "GetInstallationBatches example_graph ''foo'' =
     [[Subchart ''nginx'', Subchart ''rabbitmq''], [Subchart ''bar''],
      [Subchart ''orphaned'', OwnResources ''foo'']]"
  by (simp add: GetInstallationBatches_def example_subcharts example_isolated example_peel)

lemma peel_subset: "set (concat (peel g placed remaining)) \<subseteq> set remaining"
proof (induction g placed remaining rule: peel.induct)
  case (1 g placed remaining)
  show ?case
  proof (cases "filter (predecessors_placed g placed) remaining = []")
    case True
    then show ?thesis by (subst peel.simps) simp
  next
    case False
    with 1 [OF refl False] show ?thesis
      by (subst peel.simps) (auto simp: Let_def)
  qed
qed

text \<open>
  C5. For the subcharts nginx, rabbitmq, bar and orphaned of the chart foo, where bar depends
  on nginx and rabbitmq, the installation batches are nginx with rabbitmq, then bar, then
  orphaned with the own resources of foo. In any graph, an isolated subchart is in the last
  batch, with the own resources of the chart, and in no batch before it.
\<close>

theorem isolated_nodes_last:
  "GetInstallationBatches example_graph ''foo'' =
     [[Subchart ''nginx'', Subchart ''rabbitmq''], [Subchart ''bar''],
      [Subchart ''orphaned'', OwnResources ''foo'']]
   \<and> (\<forall>g owner n.
        n \<in> set (subcharts g) \<and> isolated g n \<longrightarrow>
        Subchart n \<in> set (last (GetInstallationBatches g owner)) \<and>
        OwnResources owner \<in> set (last (GetInstallationBatches g owner)) \<and>
        Subchart n \<notin> set (concat (butlast (GetInstallationBatches g owner))))"
proof -
  have "Subchart n \<notin> set (concat (butlast (GetInstallationBatches g owner)))"
    if "isolated g n" for g owner n
  proof -
    have "set (concat (peel g [] (filter (\<lambda>n. \<not> isolated g n) (subcharts g))))
        \<subseteq> {n \<in> set (subcharts g). \<not> isolated g n}"
      using peel_subset [of g "[]" "filter (\<lambda>n. \<not> isolated g n) (subcharts g)"] by simp
    with that have "n \<notin> set (concat (peel g [] (filter (\<lambda>n. \<not> isolated g n) (subcharts g))))"
      by auto
    then show ?thesis
      by (auto simp: GetInstallationBatches_def butlast_append)
  qed
  then show ?thesis
    using example_batches by (auto simp: GetInstallationBatches_def)
qed

theorem isolated_nodes_last_witness:
  "''orphaned'' \<in> set (subcharts example_graph) \<and> isolated example_graph ''orphaned''
   \<and> Subchart ''orphaned'' \<in> set (last (GetInstallationBatches example_graph ''foo''))
   \<and> OwnResources ''foo'' \<in> set (last (GetInstallationBatches example_graph ''foo''))
   \<and> Subchart ''orphaned'' \<notin> set (concat (butlast (GetInstallationBatches example_graph ''foo'')))"
proof -
  have h: "''orphaned'' \<in> set (subcharts example_graph) \<and> isolated example_graph ''orphaned''"
    by (simp add: example_isolated example_subcharts)
  with isolated_nodes_last show ?thesis by blast
qed

end
